theory Spec2Isabelle
  imports Main
begin

section \<open>JavaScript values used by the client\<close>

text \<open>
  A JavaScript number. The client does no arithmetic on the numbers that pass through it
  (query values, decoded payloads); the one operation on them is the conversion to a string.
  A number is therefore given by the string that \<open>Number::toString\<close> returns for it
  (\<open>10\<close>, \<open>0.5\<close>, \<open>1e+21\<close>, \<open>NaN\<close>, \<open>Infinity\<close>); the two zeros are one number here.
\<close>

datatype js_number = Number string

fun Number_toString :: "js_number \<Rightarrow> string" where
  "Number_toString (Number s) = s"

text \<open>
  A decoded JSON value, as \<open>response.json()\<close> resolves it. An object is the list of its
  own properties, each name once.
\<close>

datatype json =
    JNull
  | JBool bool
  | JNum js_number
  | JStr string
  | JArr "json list"
  | JObj "(string \<times> json) list"

text \<open>
  Decimal rendering of a status code (a non-negative integer), as a template literal gives it.
\<close>

definition digit_char :: "nat \<Rightarrow> char" where
  "digit_char d = char_of (48 + d)"

fun decimal :: "nat \<Rightarrow> string" where
  "decimal n = (if n < 10 then [digit_char n] else decimal (n div 10) @ [digit_char (n mod 10)])"

declare decimal.simps [simp del]

fun join_comma :: "string list \<Rightarrow> string" where
  "join_comma [] = []"
| "join_comma [s] = s"
| "join_comma (s # t # ss) = s @ '','' @ join_comma (t # ss)"

text \<open>
  The string that \<open>ToString\<close> gives for a decoded value when it returns: an array joins
  the conversions of its elements, \<open>null\<close> elements giving the empty string, and an object
  without a \<open>toString\<close> property of its own gives \<open>[object Object]\<close>.
\<close>

fun String_json :: "json \<Rightarrow> string" where
  "String_json JNull = ''null''"
| "String_json (JBool b) = (if b then ''true'' else ''false'')"
| "String_json (JNum n) = Number_toString n"
| "String_json (JStr s) = s"
| "String_json (JArr xs) = join_comma (map (\<lambda>x. if x = JNull then [] else String_json x) xs)"
| "String_json (JObj kvs) = ''[object Object]''"

text \<open>
  Whether \<open>ToString\<close> returns. For an object it looks up the methods \<open>toString\<close> and
  \<open>valueOf\<close>; an own \<open>toString\<close> property of a decoded object is never callable and hides
  the inherited method, and the inherited \<open>valueOf\<close> returns the object itself, so the
  conversion throws a \<open>TypeError\<close> (its message is the engine's). An array converts each
  element that is not \<open>null\<close>.
\<close>

fun convertible :: "json \<Rightarrow> bool" where
  "convertible (JObj kvs) = (map_of kvs ''toString'' = None)"
| "convertible (JArr xs) = (\<forall>x \<in> set xs. convertible x)"
| "convertible JNull = True"
| "convertible (JBool b) = True"
| "convertible (JNum n) = True"
| "convertible (JStr s) = True"

section \<open>errors.ts\<close>

record supp_error =
  name :: string
  message :: string
  status :: nat
  code :: string

text \<open>
  What a \<open>throw\<close> or a rejected promise carries: a \<open>SuppError\<close> (or a subclass, told apart by
  \<open>name\<close>), the \<open>DOMException\<close> named \<open>AbortError\<close> that an aborted \<open>fetch\<close> rejects with,
  any other \<open>Error\<close> instance with its name and message, or a value that is not an
  \<open>Error\<close>, with its \<open>String(...)\<close> rendering.
\<close>

datatype js_exn =
    SuppErr supp_error
  | AbortError
  | ErrorObj string string
  | NonError string

definition not_primitive :: js_exn where
  "not_primitive = ErrorObj ''TypeError'' ''Cannot convert object to primitive value''"

text \<open>
  \<open>ToString\<close> as the \<open>Error\<close> constructor applies it to its message argument
  (\<open>super(message)\<close>): \<open>errorBody.error as string\<close> is a compile-time cast only, so the
  argument can be any decoded value.
\<close>

definition ToString :: "json \<Rightarrow> js_exn + string" where
  "ToString j = (if convertible j then Inr (String_json j) else Inl not_primitive)"

text \<open>
  The constructors below build the error object from a message that is a string; the
  conversion of another value to a string is made where they are called.
\<close>

definition SuppError :: "string \<Rightarrow> nat \<Rightarrow> string option \<Rightarrow> supp_error" where
  "SuppError msg st c =
     \<lparr> name = ''SuppError'', message = msg, status = st,
       code = (case c of Some c' \<Rightarrow> c' | None \<Rightarrow> ''HTTP_'' @ decimal st) \<rparr>"

definition AuthenticationError :: "string option \<Rightarrow> supp_error" where
  "AuthenticationError msg =
     (SuppError (case msg of Some m \<Rightarrow> m | None \<Rightarrow> ''Invalid or missing API key'')
        401 (Some ''AUTHENTICATION_ERROR'')) \<lparr> name := ''AuthenticationError'' \<rparr>"

definition InsufficientBalanceError :: "string option \<Rightarrow> supp_error" where
  "InsufficientBalanceError msg =
     (SuppError (case msg of Some m \<Rightarrow> m | None \<Rightarrow> ''Insufficient balance'')
        402 (Some ''INSUFFICIENT_BALANCE'')) \<lparr> name := ''InsufficientBalanceError'' \<rparr>"

definition ForbiddenError :: "string option \<Rightarrow> supp_error" where
  "ForbiddenError msg =
     (SuppError (case msg of Some m \<Rightarrow> m | None \<Rightarrow> ''Insufficient permissions'')
        403 (Some ''FORBIDDEN'')) \<lparr> name := ''ForbiddenError'' \<rparr>"

definition NotFoundError :: "string option \<Rightarrow> supp_error" where
  "NotFoundError msg =
     (SuppError (case msg of Some m \<Rightarrow> m | None \<Rightarrow> ''Resource not found'')
        404 (Some ''NOT_FOUND'')) \<lparr> name := ''NotFoundError'' \<rparr>"

definition RateLimitError :: "string option \<Rightarrow> supp_error" where
  "RateLimitError msg =
     (SuppError (case msg of Some m \<Rightarrow> m | None \<Rightarrow> ''Rate limit or spend cap exceeded'')
        429 (Some ''RATE_LIMITED'')) \<lparr> name := ''RateLimitError'' \<rparr>"

definition ValidationError :: "string \<Rightarrow> supp_error" where
  "ValidationError msg =
     (SuppError msg 400 (Some ''VALIDATION_ERROR'')) \<lparr> name := ''ValidationError'' \<rparr>"

section \<open>client.ts: data\<close>

datatype http_method = GET | POST | PATCH | DELETE

text \<open>A query value: \<open>string | number | boolean | undefined\<close>.\<close>

datatype qvalue = QString string | QNumber js_number | QBoolean bool | QUndefined

text \<open>
  \<open>RequestOptions\<close>; \<open>req_method\<close> is its field \<open>method\<close>. \<open>body\<close> and \<open>query\<close> are
  optional records; each is the list of entries that \<open>Object.entries\<close> yields.
\<close>

record request_options =
  req_method :: http_method
  path :: string
  body :: "(string \<times> json) list option"
  query :: "(string \<times> qvalue) list option"

record http_client =
  apiKey :: string
  baseUrl :: string
  maxRetries :: int
  timeout :: int

text \<open>The constructor's \<open>options\<close> argument (also \<open>SuppOptions\<close>): every field optional.\<close>

record client_options =
  opt_baseUrl :: "string option"
  opt_maxRetries :: "int option"
  opt_timeout :: "int option"

text \<open>The text that \<open>JSON.stringify\<close> produces for a value, kept symbolic.\<close>

datatype wire_text = JSON_stringify json

text \<open>
  \<open>RequestInit\<close> as passed to \<open>fetch\<close>. The \<open>signal\<close> field is not a component: an abort
  appears as the outcome of the call it aborts.
\<close>

record request_init =
  init_method :: http_method
  init_headers :: "(string \<times> string) list"
  init_body :: "wire_text option"

subsection \<open>The platform's URL object\<close>

text \<open>
  A parsed URL: its serialisation up to the query, the query (\<open>None\<close> when the URL has none),
  the fragment, and the list that \<open>searchParams\<close> holds. The constructor \<open>new URL(path, base)\<close>
  is platform code; the functions below take it as the parameter \<open>URL_new\<close>, which either
  throws or returns such an object.
\<close>

record url =
  url_prefix :: string
  url_query :: "string option"
  url_fragment :: "string option"
  searchParams :: "(string \<times> string) list"

definition hex_digit :: "nat \<Rightarrow> char" where
  "hex_digit d = (if d < 10 then char_of (48 + d) else char_of (55 + d))"

text \<open>The \<open>application/x-www-form-urlencoded\<close> byte serialiser (space as plus).\<close>

definition urlencoded_byte :: "char \<Rightarrow> string" where
  "urlencoded_byte c =
     (let n = (of_char c :: nat) in
      if c = CHR '' '' then ''+''
      else if (48 \<le> n \<and> n \<le> 57) \<or> (65 \<le> n \<and> n \<le> 90) \<or> (97 \<le> n \<and> n \<le> 122)
              \<or> c = CHR ''*'' \<or> c = CHR ''-'' \<or> c = CHR ''.'' \<or> c = CHR ''_''
      then [c]
      else [CHR ''%'', hex_digit (n div 16), hex_digit (n mod 16)])"

definition urlencoded_string :: "string \<Rightarrow> string" where
  "urlencoded_string s = concat (map urlencoded_byte s)"

fun urlencoded_serialize :: "(string \<times> string) list \<Rightarrow> string" where
  "urlencoded_serialize [] = []"
| "urlencoded_serialize [(k, v)] = urlencoded_string k @ ''='' @ urlencoded_string v"
| "urlencoded_serialize ((k, v) # p # ps) =
     urlencoded_string k @ ''='' @ urlencoded_string v @ ''&'' @ urlencoded_serialize (p # ps)"

text \<open>
  \<open>URLSearchParams.set\<close>: the first tuple named \<open>k\<close> gets the value and the others named
  \<open>k\<close> are removed; with no such tuple, a new one is appended.
\<close>

fun params_set :: "(string \<times> string) list \<Rightarrow> string \<Rightarrow> string \<Rightarrow> (string \<times> string) list" where
  "params_set [] k v = [(k, v)]"
| "params_set ((k', v') # rest) k v =
     (if k' = k then (k, v) # filter (\<lambda>kv. fst kv \<noteq> k) rest
      else (k', v') # params_set rest k v)"

text \<open>\<open>url.searchParams.set(k, v)\<close>: the list changes and the URL's query is its serialisation.\<close>

definition searchParams_set :: "url \<Rightarrow> string \<Rightarrow> string \<Rightarrow> url" where
  "searchParams_set u k v =
     (let ps = params_set (searchParams u) k v
      in u \<lparr> url_query := Some (urlencoded_serialize ps), searchParams := ps \<rparr>)"

definition url_toString :: "url \<Rightarrow> string" where
  "url_toString u =
     url_prefix u
     @ (case url_query u of None \<Rightarrow> [] | Some q \<Rightarrow> ''?'' @ q)
     @ (case url_fragment u of None \<Rightarrow> [] | Some f \<Rightarrow> ''#'' @ f)"

subsection \<open>The URL parser on plain inputs\<close>

text \<open>
  \<open>new URL(path, base)\<close> follows the URL standard's parser. The part of it modelled here:
  \<^item> a \<open>base\<close> without a scheme (after the parser has stripped leading and trailing
    spaces and control characters and removed tabs and newlines: no leading letter, or no
    colon after the run of scheme characters) makes the parser fail, and the constructor
    throw a \<open>TypeError\<close>;
  \<^item> otherwise every character of \<open>base\<close> is printable ASCII (no space, control or other
    character), the scheme is \<open>http\<close> or \<open>https\<close> in lower case, followed by \<open>//\<close> and a
    host of lower-case labels (letters, digits, hyphens; no label empty or starting with
    \<open>xn--\<close>; the last one starting with a letter), optionally a port that the
    serialiser keeps as written; what follows the host and port (the base's own path, query
    and fragment) is \<open>rest\<close>;
  \<^item> \<open>path\<close> is an absolute path (a slash, not followed by a slash or backslash) of
    characters that the parser leaves as they are, with no dot segment, and optionally a
    query of such characters without \<open>%\<close> and \<open>+\<close>, and no fragment.
  On these inputs the result has the base's scheme, host and port, and the path and query of
  \<open>path\<close>; \<open>rest\<close> is dropped. \<open>None\<close> stands for an input outside this part.
\<close>

definition invalid_URL :: js_exn where
  "invalid_URL = ErrorObj ''TypeError'' ''Invalid URL''"

definition ascii_alpha :: "char \<Rightarrow> bool" where
  "ascii_alpha c = (let n = (of_char c :: nat) in (65 \<le> n \<and> n \<le> 90) \<or> (97 \<le> n \<and> n \<le> 122))"

definition lower_alpha :: "char \<Rightarrow> bool" where
  "lower_alpha c = (let n = (of_char c :: nat) in 97 \<le> n \<and> n \<le> 122)"

definition ascii_digit :: "char \<Rightarrow> bool" where
  "ascii_digit c = (let n = (of_char c :: nat) in 48 \<le> n \<and> n \<le> 57)"

definition printable :: "char \<Rightarrow> bool" where
  "printable c = (let n = (of_char c :: nat) in 33 \<le> n \<and> n \<le> 126)"

definition scheme_char :: "char \<Rightarrow> bool" where
  "scheme_char c = (ascii_alpha c \<or> ascii_digit c \<or> c = CHR ''+'' \<or> c = CHR ''-'' \<or> c = CHR ''.'')"

definition authority_end :: "char \<Rightarrow> bool" where
  "authority_end c = (c = CHR ''/'' \<or> c = CHR ''?'' \<or> c = CHR ''#'' \<or> c = CHR 0x5C)"

fun split_on :: "char \<Rightarrow> string \<Rightarrow> string list" where
  "split_on d [] = [[]]"
| "split_on d (c # cs) =
     (if c = d then [] # split_on d cs
      else (case split_on d cs of [] \<Rightarrow> [[c]] | l # ls \<Rightarrow> (c # l) # ls))"

definition plain_label :: "string \<Rightarrow> bool" where
  "plain_label l =
     (l \<noteq> [] \<and> list_all (\<lambda>c. lower_alpha c \<or> ascii_digit c \<or> c = CHR ''-'') l
      \<and> take 4 l \<noteq> ''xn--'')"

definition plain_host :: "string \<Rightarrow> bool" where
  "plain_host h =
     (list_all plain_label (split_on (CHR ''.'') h)
      \<and> (case last (split_on (CHR ''.'') h) of [] \<Rightarrow> False | c # _ \<Rightarrow> lower_alpha c))"

definition port_number :: "string \<Rightarrow> nat" where
  "port_number ds = foldl (\<lambda>n c. 10 * n + (of_char c - 48)) 0 ds"

definition plain_port :: "string \<Rightarrow> string \<Rightarrow> bool" where
  "plain_port sch ds =
     (case ds of
        [] \<Rightarrow> False
      | d # _ \<Rightarrow> list_all ascii_digit ds \<and> d \<noteq> CHR ''0'' \<and> length ds \<le> 5
                 \<and> port_number ds \<le> 65535
                 \<and> port_number ds \<noteq> (if sch = ''https'' then 443 else 80))"

definition c0_or_space :: "char \<Rightarrow> bool" where
  "c0_or_space c = ((of_char c :: nat) \<le> 32)"

definition tab_or_newline :: "char \<Rightarrow> bool" where
  "tab_or_newline c = (let n = (of_char c :: nat) in n = 9 \<or> n = 10 \<or> n = 13)"

text \<open>The input as the parser reads it.\<close>

definition preprocess :: "string \<Rightarrow> string" where
  "preprocess s =
     filter (\<lambda>c. \<not> tab_or_newline c)
       (rev (dropWhile c0_or_space (rev (dropWhile c0_or_space s))))"

definition no_scheme :: "string \<Rightarrow> bool" where
  "no_scheme s =
     (case s of
        [] \<Rightarrow> True
      | c # _ \<Rightarrow>
          \<not> ascii_alpha c
          \<or> (case dropWhile scheme_char s of [] \<Rightarrow> True | d # _ \<Rightarrow> d \<noteq> CHR '':''))"

text \<open>The origin of \<open>base\<close> as the parser serialises it, and what follows it in \<open>base\<close>.\<close>

definition base_origin :: "string \<Rightarrow> (js_exn + string \<times> string) option" where
  "base_origin b =
     (if no_scheme (preprocess b) then Some (Inl invalid_URL)
      else if \<not> list_all printable b then None
      else case b of
        [] \<Rightarrow> Some (Inl invalid_URL)
      | c # _ \<Rightarrow>
          if \<not> ascii_alpha c then Some (Inl invalid_URL)
          else
            (let sch = takeWhile scheme_char b in
             case dropWhile scheme_char b of
               [] \<Rightarrow> Some (Inl invalid_URL)
             | d # r \<Rightarrow>
                 if d \<noteq> CHR '':'' then Some (Inl invalid_URL)
                 else if sch \<noteq> ''http'' \<and> sch \<noteq> ''https'' then None
                 else
                   (case r of
                      s1 # s2 # a \<Rightarrow>
                        if s1 \<noteq> CHR ''/'' \<or> s2 \<noteq> CHR ''/'' then None
                        else
                          (let auth = takeWhile (\<lambda>x. \<not> authority_end x) a;
                               rest = dropWhile (\<lambda>x. \<not> authority_end x) a;
                               host = takeWhile (\<lambda>x. x \<noteq> CHR '':'') auth;
                               port = dropWhile (\<lambda>x. x \<noteq> CHR '':'') auth
                           in if auth = [] then
                                (case rest of
                                   [] \<Rightarrow> Some (Inl invalid_URL)
                                 | x # _ \<Rightarrow> if x = CHR ''?'' \<or> x = CHR ''#''
                                            then Some (Inl invalid_URL) else None)
                              else if plain_host host
                                      \<and> (case port of [] \<Rightarrow> True | _ # ds \<Rightarrow> plain_port sch ds)
                              then Some (Inr (sch @ ''://'' @ auth, rest))
                              else None)
                    | _ \<Rightarrow> None)))"

definition path_char :: "char \<Rightarrow> bool" where
  "path_char c = (ascii_alpha c \<or> ascii_digit c \<or> c \<in> set ''/-._~!$&()*+,;=:@%'')"

definition query_char :: "char \<Rightarrow> bool" where
  "query_char c = (ascii_alpha c \<or> ascii_digit c \<or> c \<in> set ''-._~!$()*,;:@/?=&'')"

definition dot_segment :: "string \<Rightarrow> bool" where
  "dot_segment seg =
     (seg \<in> set [''.'', ''..'', ''%2e'', ''%2E'', ''.%2e'', ''.%2E'', ''%2e.'', ''%2E.'',
                 ''%2e%2e'', ''%2e%2E'', ''%2E%2e'', ''%2E%2E''])"

text \<open>The path and the query of \<open>path\<close>, which the parser takes over unchanged.\<close>

definition path_parts :: "string \<Rightarrow> (string \<times> string option) option" where
  "path_parts p =
     (let pn = takeWhile (\<lambda>x. x \<noteq> CHR ''?'') p;
          qr = dropWhile (\<lambda>x. x \<noteq> CHR ''?'') p
      in case p of
           [] \<Rightarrow> None
         | c # t \<Rightarrow>
             if c \<noteq> CHR ''/'' then None
             else if (case t of [] \<Rightarrow> False | x # _ \<Rightarrow> x = CHR ''/'' \<or> x = CHR 0x5C) then None
             else if \<not> list_all path_char pn then None
             else if list_ex dot_segment (split_on (CHR ''/'') pn) then None
             else (case qr of
                     [] \<Rightarrow> Some (pn, None)
                   | _ # q \<Rightarrow> if list_all query_char q then Some (pn, Some q) else None))"

text \<open>
  The \<open>application/x-www-form-urlencoded\<close> parser on a query without \<open>%\<close> and \<open>+\<close>, where
  nothing is decoded: the non-empty pieces between \<open>&\<close>, each split at its first \<open>=\<close>.
\<close>

definition urlencoded_parse :: "string \<Rightarrow> (string \<times> string) list" where
  "urlencoded_parse q =
     map (\<lambda>piece. (takeWhile (\<lambda>x. x \<noteq> CHR ''='') piece,
                    (case dropWhile (\<lambda>x. x \<noteq> CHR ''='') piece of [] \<Rightarrow> [] | _ # v \<Rightarrow> v)))
         (filter (\<lambda>piece. piece \<noteq> []) (split_on (CHR ''&'') q))"

definition URL_standard :: "string \<Rightarrow> string \<Rightarrow> (js_exn + url) option" where
  "URL_standard p b =
     (case base_origin b of
        None \<Rightarrow> None
      | Some (Inl e) \<Rightarrow> Some (Inl e)
      | Some (Inr (origin, rest)) \<Rightarrow>
          (case path_parts p of
             None \<Rightarrow> None
           | Some (pn, q) \<Rightarrow>
               Some (Inr \<lparr> url_prefix = origin @ pn, url_query = q, url_fragment = None,
                            searchParams = (case q of None \<Rightarrow> [] | Some q' \<Rightarrow> urlencoded_parse q') \<rparr>)))"

text \<open>\<open>String(value)\<close> on a defined query value.\<close>

fun String_qvalue :: "qvalue \<Rightarrow> string" where
  "String_qvalue (QString s) = s"
| "String_qvalue (QNumber n) = Number_toString n"
| "String_qvalue (QBoolean b) = (if b then ''true'' else ''false'')"
| "String_qvalue QUndefined = ''undefined''"

subsection \<open>The transport\<close>

text \<open>
  What \<open>response.json()\<close> does: resolve with the decoded body or reject. What one call of
  \<open>fetch\<close> does: resolve with a response (its status and the behaviour of its \<open>json()\<close>) or
  reject. The transport is a function from the number of the call to its outcome.
\<close>

datatype json_outcome = Resolved json | Rejected js_exn

datatype fetch_outcome = Response nat json_outcome | FetchRejected js_exn

text \<open>The observable effects of \<open>request\<close>, in order.\<close>

datatype event = Fetch string request_init | Sleep nat

section \<open>client.ts: HttpClient\<close>

definition DEFAULT_BASE_URL :: string where
  "DEFAULT_BASE_URL = ''https://api.supp.support''"

definition DEFAULT_TIMEOUT :: int where
  "DEFAULT_TIMEOUT = 30000"

definition DEFAULT_MAX_RETRIES :: int where
  "DEFAULT_MAX_RETRIES = 2"

text \<open>\<open>s.replace(/\/$/, "")\<close>: one trailing slash is removed.\<close>

definition strip_trailing_slash :: "string \<Rightarrow> string" where
  "strip_trailing_slash s = (if s \<noteq> [] \<and> last s = CHR ''/'' then butlast s else s)"

definition HttpClient_new :: "string \<Rightarrow> client_options \<Rightarrow> http_client" where
  "HttpClient_new key options =
     \<lparr> apiKey = key,
       baseUrl = strip_trailing_slash
                   (case opt_baseUrl options of Some b \<Rightarrow> b | None \<Rightarrow> DEFAULT_BASE_URL),
       maxRetries = (case opt_maxRetries options of Some m \<Rightarrow> m | None \<Rightarrow> DEFAULT_MAX_RETRIES),
       timeout = (case opt_timeout options of Some t \<Rightarrow> t | None \<Rightarrow> DEFAULT_TIMEOUT) \<rparr>"

definition buildUrl ::
  "(string \<Rightarrow> string \<Rightarrow> js_exn + url) \<Rightarrow> http_client \<Rightarrow> string
     \<Rightarrow> (string \<times> qvalue) list option \<Rightarrow> js_exn + string" where
  "buildUrl URL_new c p q =
     (case URL_new p (baseUrl c) of
        Inl e \<Rightarrow> Inl e
      | Inr u \<Rightarrow>
          Inr (url_toString
            (case q of
               None \<Rightarrow> u
             | Some entries \<Rightarrow>
                 fold (\<lambda>(key, v) u'. if v \<noteq> QUndefined
                                      then searchParams_set u' key (String_qvalue v) else u')
                      entries u)))"

definition buildError :: "nat \<Rightarrow> string \<Rightarrow> supp_error" where
  "buildError st msg =
     (if st = 400 then ValidationError msg
      else if st = 401 then AuthenticationError (Some msg)
      else if st = 402 then InsufficientBalanceError (Some msg)
      else if st = 403 then ForbiddenError (Some msg)
      else if st = 404 then NotFoundError (Some msg)
      else if st = 429 then RateLimitError (Some msg)
      else SuppError msg st None)"

text \<open>
  Reading a property named \<open>data\<close> or \<open>error\<close>: on \<open>null\<close> the read throws a \<open>TypeError\<close>
  (the message is the engine's), on an object it is the own property or \<open>undefined\<close>, on
  any other decoded value it is \<open>undefined\<close>.
\<close>

definition null_read :: "string \<Rightarrow> js_exn" where
  "null_read k = ErrorObj ''TypeError''
     (''Cannot read properties of null (reading '' @ [CHR 0x27] @ k @ [CHR 0x27] @ '')'')"

fun get_prop :: "json \<Rightarrow> string \<Rightarrow> js_exn + json option" where
  "get_prop JNull k = Inl (null_read k)"
| "get_prop (JObj kvs) k = Inr (map_of kvs k)"
| "get_prop _ k = Inr None"

text \<open>\<open>a ?? b\<close>: \<open>b\<close> when \<open>a\<close> is \<open>undefined\<close> or \<open>null\<close>.\<close>

fun nullish :: "json option \<Rightarrow> json \<Rightarrow> json" where
  "nullish None b = b"
| "nullish (Some JNull) b = b"
| "nullish (Some a) b = a"

text \<open>How one pass through the loop body ends.\<close>

datatype completion = Return json | Throw js_exn | Fallthrough js_exn

text \<open>
  The \<open>message\<close> of a response that is not \<open>ok\<close>, as a value: the body is decoded, a
  failure to decode is replaced by the empty object, and the \<open>error\<close> property is read
  (which throws on \<open>null\<close>); a missing or \<open>null\<close> property gives the synthesised text.
\<close>

definition error_message :: "nat \<Rightarrow> json_outcome \<Rightarrow> js_exn + json" where
  "error_message st js =
     (let errorBody = (case js of Rejected e \<Rightarrow> JObj [] | Resolved j \<Rightarrow> j) in
      case get_prop errorBody ''error'' of
        Inl e \<Rightarrow> Inl e
      | Inr m \<Rightarrow> Inr (nullish m (JStr (''Request failed with status '' @ decimal st))))"

text \<open>
  The \<open>try\<close> block, given what the \<open>fetch\<close> of this attempt does. \<open>Fallthrough e\<close> is
  the assignment \<open>lastError = e\<close> at its end. Both branches on the status pass \<open>message\<close>
  to a constructor of \<open>SuppError\<close>, whose \<open>super(message)\<close> converts it to a string or
  throws; that conversion is the \<open>ToString\<close> step here.
\<close>

definition try_block :: "fetch_outcome \<Rightarrow> completion" where
  "try_block out =
     (case out of
        FetchRejected e \<Rightarrow> Throw e
      | Response st js \<Rightarrow>
          if 200 \<le> st \<and> st \<le> 299 then
            (case js of
               Rejected e \<Rightarrow> Throw e
             | Resolved j \<Rightarrow>
                 (case get_prop j ''data'' of
                    Inl e \<Rightarrow> Throw e
                  | Inr d \<Rightarrow> Return (nullish d j)))
          else
            (case error_message st js of
               Inl e \<Rightarrow> Throw e
             | Inr m \<Rightarrow>
                 (case ToString m of
                    Inl e \<Rightarrow> Throw e
                  | Inr msg \<Rightarrow>
                      if st < 500 then Throw (SuppErr (buildError st msg))
                      else Fallthrough (SuppErr (SuppError msg st None)))))"

definition catch_block :: "js_exn \<Rightarrow> completion" where
  "catch_block error =
     (case error of
        SuppErr e \<Rightarrow> Throw (SuppErr e)
      | AbortError \<Rightarrow> Fallthrough (SuppErr (SuppError ''Request timed out'' 408 (Some ''TIMEOUT'')))
      | ErrorObj n m \<Rightarrow> Fallthrough (ErrorObj n m)
      | NonError s \<Rightarrow> Fallthrough (ErrorObj ''Error'' s))"

definition attempt_once :: "fetch_outcome \<Rightarrow> completion" where
  "attempt_once out =
     (case try_block out of
        Throw e \<Rightarrow> catch_block e
      | Return v \<Rightarrow> Return v
      | Fallthrough e \<Rightarrow> Fallthrough e)"

definition backoff :: "nat \<Rightarrow> nat" where
  "backoff attempt = min (1000 * 2 ^ attempt) 8000"

text \<open>
  The \<open>for\<close> loop from \<open>attempt\<close> on, with the current \<open>lastError\<close>, and the final
  \<open>throw\<close> after it. The result is what \<open>request\<close> returns (\<open>Inr\<close>) or throws (\<open>Inl\<close>),
  with the effects in order.
\<close>

function request_loop ::
  "http_client \<Rightarrow> (nat \<Rightarrow> fetch_outcome) \<Rightarrow> string \<Rightarrow> request_init \<Rightarrow> nat \<Rightarrow> js_exn option
     \<Rightarrow> (js_exn + json) \<times> event list" where
  "request_loop c fetch u init attempt lastError =
     (if int attempt \<le> maxRetries c then
        (case attempt_once (fetch attempt) of
           Return v \<Rightarrow> (Inr v, [Fetch u init])
         | Throw e \<Rightarrow> (Inl e, [Fetch u init])
         | Fallthrough e \<Rightarrow>
             (let pause = (if int attempt < maxRetries c then [Sleep (backoff attempt)] else []);
                  rest = request_loop c fetch u init (attempt + 1) (Some e)
              in (fst rest, Fetch u init # pause @ snd rest)))
      else
        (Inl (case lastError of
                Some e \<Rightarrow> e
              | None \<Rightarrow> SuppErr (SuppError ''Request failed after retries'' 500 None)),
         []))"
  by pat_completeness auto
termination
  by (relation "measure (\<lambda>(c, fetch, u, init, attempt, lastError).
                   nat (maxRetries c + 1 - int attempt))") auto

declare request_loop.simps [simp del]

text \<open>The headers and the \<open>RequestInit\<close> that \<open>request\<close> builds before the loop.\<close>

definition build_init :: "http_client \<Rightarrow> request_options \<Rightarrow> request_init" where
  "build_init c options =
     (let headers = [(''X-API-Key'', apiKey c), (''Content-Type'', ''application/json'')];
          init = \<lparr> init_method = req_method options, init_headers = headers, init_body = None \<rparr>
      in case body options of
           Some b \<Rightarrow> if req_method options \<noteq> GET
                     then init \<lparr> init_body := Some (JSON_stringify (JObj b)) \<rparr>
                     else init
         | None \<Rightarrow> init)"

definition request ::
  "(string \<Rightarrow> string \<Rightarrow> js_exn + url) \<Rightarrow> (nat \<Rightarrow> fetch_outcome) \<Rightarrow> http_client
     \<Rightarrow> request_options \<Rightarrow> (js_exn + json) \<times> event list" where
  "request URL_new fetch c options =
     (case buildUrl URL_new c (path options) (query options) of
        Inl e \<Rightarrow> (Inl e, [])
      | Inr u \<Rightarrow> request_loop c fetch u (build_init c options) 0 None)"

section \<open>index.ts: Supp\<close>

text \<open>
  The constructor throws on a falsy key, else builds the \<open>HttpClient\<close> that every resource
  object shares.
\<close>

definition Supp_new :: "string \<Rightarrow> client_options \<Rightarrow> js_exn + http_client" where
  "Supp_new key options =
     (if key = [] then
        Inl (ErrorObj ''Error'' ''API key is required. Get one at https://supp.support/dashboard'')
      else Inr (HttpClient_new key
                  \<lparr> opt_baseUrl = opt_baseUrl options,
                    opt_maxRetries = opt_maxRetries options,
                    opt_timeout = opt_timeout options \<rparr>))"

section \<open>Observations on a run\<close>

text \<open>
  The effects of the attempts numbered \<open>ks\<close> when each of them falls through to the
  backoff: one call, then the sleep if another attempt remains.
\<close>

definition rounds :: "http_client \<Rightarrow> string \<Rightarrow> request_init \<Rightarrow> nat list \<Rightarrow> event list" where
  "rounds c u init ks =
     concat (map (\<lambda>k. Fetch u init # (if int k < maxRetries c then [Sleep (backoff k)] else [])) ks)"

text \<open>
  The effects of a run that makes the attempts \<open>0, ..., m\<close>: a call for each, and between
  two consecutive attempts the sleep that follows the earlier one.
\<close>

definition attempt_trace :: "string \<Rightarrow> request_init \<Rightarrow> nat \<Rightarrow> event list" where
  "attempt_trace u init m =
     concat (map (\<lambda>k. [Fetch u init, Sleep (backoff k)]) [0..<m]) @ [Fetch u init]"

fun fallthrough_error :: "completion \<Rightarrow> js_exn option" where
  "fallthrough_error (Fallthrough e) = Some e"
| "fallthrough_error (Return v) = None"
| "fallthrough_error (Throw e) = None"

fun fetches :: "event list \<Rightarrow> (string \<times> request_init) list" where
  "fetches [] = []"
| "fetches (Fetch u init # evs) = (u, init) # fetches evs"
| "fetches (Sleep ms # evs) = fetches evs"

fun sleeps :: "event list \<Rightarrow> nat list" where
  "sleeps [] = []"
| "sleeps (Fetch u init # evs) = sleeps evs"
| "sleeps (Sleep ms # evs) = ms # sleeps evs"

text \<open>A response with a status of 500 or more whose body does not decode to \<open>null\<close>.\<close>

definition server_error :: "fetch_outcome \<Rightarrow> bool" where
  "server_error out =
     (case out of
        Response st js \<Rightarrow> 500 \<le> st \<and> js \<noteq> Resolved JNull
      | FetchRejected e \<Rightarrow> False)"

text \<open>An attempt that is aborted by the timeout timer, or a server error as above.\<close>

definition timeout_or_server_error :: "fetch_outcome \<Rightarrow> bool" where
  "timeout_or_server_error out = (out = FetchRejected AbortError \<or> server_error out)"

text \<open>
  The exception that the platform raises during an attempt, if any: \<open>fetch\<close> rejects, or the
  body of a 2xx response cannot be read or decoded. (The failure to decode the body of any
  other response is swallowed by \<open>.catch(() => ({}))\<close>.)
\<close>

fun rejection :: "fetch_outcome \<Rightarrow> js_exn option" where
  "rejection (FetchRejected x) = Some x"
| "rejection (Response st (Rejected x)) = (if 200 \<le> st \<and> st \<le> 299 then Some x else None)"
| "rejection (Response st (Resolved j)) = None"

text \<open>A response with a status of 500 or more, whatever its body.\<close>

definition status_5xx :: "fetch_outcome \<Rightarrow> bool" where
  "status_5xx out = (case out of Response st js \<Rightarrow> 500 \<le> st | FetchRejected e \<Rightarrow> False)"

definition stable_codes :: "string list" where
  "stable_codes = [''VALIDATION_ERROR'', ''AUTHENTICATION_ERROR'', ''INSUFFICIENT_BALANCE'',
                   ''FORBIDDEN'', ''NOT_FOUND'', ''RATE_LIMITED'', ''TIMEOUT'']"

subsection \<open>Example platforms\<close>

text \<open>A transport that answers the first calls from a list and every later call alike.\<close>

definition scripted :: "fetch_outcome list \<Rightarrow> fetch_outcome \<Rightarrow> nat \<Rightarrow> fetch_outcome" where
  "scripted outs rest k = (if k < length outs then outs ! k else rest)"

text \<open>
  The constructor \<open>new URL(path, base)\<close> where \<open>URL_standard\<close> models it. On an input
  outside that part of the parser the value names that fact and stands for no behaviour of
  the platform; no statement below evaluates the function there.
\<close>

definition URL_at_origin :: "string \<Rightarrow> string \<Rightarrow> js_exn + url" where
  "URL_at_origin p b =
     (case URL_standard p b of
        Some r \<Rightarrow> r
      | None \<Rightarrow> Inl (NonError ''outside the modelled part of the URL parser''))"

section \<open>The retry loop\<close>

lemma request_loop_events:
  "ev \<in> set (snd (request_loop c fetch u init a le)) \<Longrightarrow> ev = Fetch u init \<or> (\<exists>ms. ev = Sleep ms)"
proof (induction c fetch u init a le rule: request_loop.induct)
  case (1 c fetch u init attempt lastError)
  show ?case
  proof (cases "int attempt \<le> maxRetries c")
    case False
    with "1.prems" show ?thesis by (subst (asm) request_loop.simps) simp
  next
    case True
    show ?thesis
    proof (cases "attempt_once (fetch attempt)")
      case (Return v)
      with True "1.prems" show ?thesis by (subst (asm) request_loop.simps) simp
    next
      case (Throw e)
      with True "1.prems" show ?thesis by (subst (asm) request_loop.simps) simp
    next
      case (Fallthrough e)
      from "1.prems" have "ev = Fetch u init \<or> (\<exists>ms. ev = Sleep ms)
          \<or> ev \<in> set (snd (request_loop c fetch u init (attempt + 1) (Some e)))"
        by (subst (asm) request_loop.simps) (auto simp: True Fallthrough Let_def split: if_splits)
      with "1.IH"[OF True Fallthrough refl] show ?thesis by blast
    qed
  qed
qed

lemma request_loop_exhaust:
  assumes "\<forall>k. a \<le> k \<and> int k \<le> maxRetries c \<longrightarrow> (\<exists>e. attempt_once (fetch k) = Fallthrough e)"
    and "int a \<le> maxRetries c"
  shows "request_loop c fetch u init a le =
           (Inl (the (fallthrough_error (attempt_once (fetch (nat (maxRetries c)))))),
            rounds c u init [a..<Suc (nat (maxRetries c))])"
  using assms
proof (induction c fetch u init a le rule: request_loop.induct)
  case (1 c fetch u init attempt lastError)
  from "1.prems" obtain e where e: "attempt_once (fetch attempt) = Fallthrough e" by blast
  show ?case
  proof (cases "int attempt < maxRetries c")
    case True
    have ih: "request_loop c fetch u init (Suc attempt) (Some e) =
           (Inl (the (fallthrough_error (attempt_once (fetch (nat (maxRetries c)))))),
            rounds c u init [Suc attempt..<Suc (nat (maxRetries c))])"
      using "1.IH"[OF "1.prems"(2) e refl] "1.prems"(1) True by auto
    have "attempt < Suc (nat (maxRetries c))" using True by linarith
    then have up: "[attempt..<Suc (nat (maxRetries c))] = attempt # [Suc attempt..<Suc (nat (maxRetries c))]"
      by (rule upt_conv_Cons)
    show ?thesis
      by (subst request_loop.simps) (simp add: e ih up rounds_def True "1.prems"(2) del: upt_Suc)
  next
    case False
    with "1.prems"(2) have eq: "maxRetries c = int attempt" by simp
    have nxt: "request_loop c fetch u init (Suc attempt) (Some e) = (Inl e, [])"
      by (subst request_loop.simps) (simp add: eq)
    show ?thesis
      by (subst request_loop.simps) (simp add: e nxt eq rounds_def)
  qed
qed

lemma request_loop_stop:
  assumes "\<forall>j. a \<le> j \<and> j < k \<longrightarrow> (\<exists>e. attempt_once (fetch j) = Fallthrough e)"
    and "a \<le> k" and "int k \<le> maxRetries c"
    and "fallthrough_error (attempt_once (fetch k)) = None"
  shows "request_loop c fetch u init a le =
           ((case attempt_once (fetch k) of Return v \<Rightarrow> Inr v | Throw e \<Rightarrow> Inl e | Fallthrough e \<Rightarrow> Inl e),
            rounds c u init [a..<k] @ [Fetch u init])"
  using assms
proof (induction c fetch u init a le rule: request_loop.induct)
  case (1 c fetch u init attempt lastError)
  show ?case
  proof (cases "attempt = k")
    case True
    with "1.prems"(3,4) show ?thesis
      by (subst request_loop.simps) (auto simp: rounds_def split: completion.splits)
  next
    case False
    with "1.prems"(2) have lt: "attempt < k" by simp
    with "1.prems"(1) obtain e where e: "attempt_once (fetch attempt) = Fallthrough e" by blast
    have le: "int attempt < maxRetries c" using lt "1.prems"(3) by simp
    have le': "int attempt \<le> maxRetries c" using le by simp
    have ih: "request_loop c fetch u init (Suc attempt) (Some e) =
           ((case attempt_once (fetch k) of Return v \<Rightarrow> Inr v | Throw e \<Rightarrow> Inl e | Fallthrough e \<Rightarrow> Inl e),
            rounds c u init [Suc attempt..<k] @ [Fetch u init])"
      using "1.IH"[OF le' e refl] "1.prems" lt by auto
    have up: "[attempt..<k] = attempt # [Suc attempt..<k]"
      using lt by (rule upt_conv_Cons)
    show ?thesis
      by (subst request_loop.simps) (simp add: e ih up rounds_def le le')
  qed
qed


lemma error_message_total:
  "js \<noteq> Resolved JNull \<Longrightarrow> \<exists>m. error_message st js = Inr m"
proof (cases js)
  case (Resolved j)
  assume "js \<noteq> Resolved JNull"
  with Resolved have "j \<noteq> JNull" by simp
  then show ?thesis using Resolved by (cases j) (simp_all add: error_message_def)
next
  case (Rejected e)
  then show ?thesis by (simp add: error_message_def)
qed

lemma error_message_thrown:
  "error_message st js = Inl e \<Longrightarrow> e = null_read ''error''"
proof (cases js)
  case (Resolved j)
  assume "error_message st js = Inl e"
  with Resolved show ?thesis by (cases j) (simp_all add: error_message_def)
next
  case (Rejected x)
  assume "error_message st js = Inl e"
  with Rejected show ?thesis by (simp add: error_message_def)
qed

lemma attempt_once_5xx:
  assumes "500 \<le> st"
  shows "\<exists>e. attempt_once (Response st js) = Fallthrough e"
proof (cases "error_message st js")
  case (Inl e)
  with error_message_thrown[OF Inl] assms show ?thesis
    by (simp add: attempt_once_def try_block_def catch_block_def null_read_def)
next
  case (Inr m)
  with assms show ?thesis
    by (simp add: attempt_once_def try_block_def catch_block_def ToString_def not_primitive_def)
qed

lemma attempt_once_status_5xx:
  "status_5xx out \<Longrightarrow> \<exists>e. attempt_once out = Fallthrough e"
  using attempt_once_5xx by (cases out) (auto simp: status_5xx_def)

lemma attempt_once_server_error:
  "server_error out \<Longrightarrow> \<exists>e. attempt_once out = Fallthrough e"
  using attempt_once_5xx by (cases out) (auto simp: server_error_def)

lemma attempt_once_5xx_typed:
  assumes "500 \<le> st" and "error_message st js = Inr m" and "convertible m"
  shows "attempt_once (Response st js) = Fallthrough (SuppErr (SuppError (String_json m) st None))"
  using assms by (simp add: attempt_once_def try_block_def ToString_def)

lemma attempt_once_client_error:
  assumes "\<not> (200 \<le> st \<and> st \<le> 299)" and "st < 500"
    and "error_message st js = Inr m" and "convertible m"
  shows "attempt_once (Response st js) = Throw (SuppErr (buildError st (String_json m)))"
  using assms by (auto simp: attempt_once_def try_block_def ToString_def catch_block_def)

lemma attempt_once_ok:
  assumes "200 \<le> st" and "st \<le> 299" and "j \<noteq> JNull"
  shows "attempt_once (Response st (Resolved j)) =
           Return (case j of
                     JObj kvs \<Rightarrow> (case map_of kvs ''data'' of
                                   None \<Rightarrow> j
                                 | Some v \<Rightarrow> if v = JNull then j else v)
                   | _ \<Rightarrow> j)"
proof (cases j)
  case (JObj kvs)
  show ?thesis
  proof (cases "map_of kvs ''data''")
    case None
    then show ?thesis using assms JObj by (simp add: attempt_once_def try_block_def)
  next
    case (Some v)
    then show ?thesis using assms JObj by (cases v) (simp_all add: attempt_once_def try_block_def)
  qed
qed (use assms in \<open>simp_all add: attempt_once_def try_block_def\<close>)

lemma attempt_once_abort:
  "attempt_once (FetchRejected AbortError) =
     Fallthrough (SuppErr (SuppError ''Request timed out'' 408 (Some ''TIMEOUT'')))"
  by (simp add: attempt_once_def try_block_def catch_block_def)

lemma fetches_rounds: "fetches (rounds c u init ks) = replicate (length ks) (u, init)"
  by (induction ks) (simp_all add: rounds_def)

lemma sleeps_rounds:
  "sleeps (rounds c u init ks) = map backoff (filter (\<lambda>k. int k < maxRetries c) ks)"
  by (induction ks) (simp_all add: rounds_def)

lemma fetches_append: "fetches (xs @ ys) = fetches xs @ fetches ys"
  by (induction xs rule: fetches.induct) simp_all

lemma sleeps_append: "sleeps (xs @ ys) = sleeps xs @ sleeps ys"
  by (induction xs rule: sleeps.induct) simp_all

lemma fetches_mem: "x \<in> set (fetches evs) \<Longrightarrow> Fetch (fst x) (snd x) \<in> set evs"
  by (induction evs rule: fetches.induct) auto

lemma request_fetches_init:
  assumes "x \<in> set (fetches (snd (request URL_new fetch c options)))"
  shows "snd x = build_init c options"
proof (cases "buildUrl URL_new c (path options) (query options)")
  case (Inl e)
  with assms show ?thesis by (simp add: request_def)
next
  case (Inr u)
  with assms have "x \<in> set (fetches (snd (request_loop c fetch u (build_init c options) 0 None)))"
    by (simp add: request_def)
  from fetches_mem[OF this] request_loop_events
  have "Fetch (fst x) (snd x) = Fetch u (build_init c options)
          \<or> (\<exists>ms. Fetch (fst x) (snd x) = Sleep ms)"
    by blast
  then show ?thesis by simp
qed

lemma rounds_sleeping:
  "\<forall>k \<in> set ks. int k < maxRetries c \<Longrightarrow>
     rounds c u init ks = concat (map (\<lambda>k. [Fetch u init, Sleep (backoff k)]) ks)"
  by (induction ks) (simp_all add: rounds_def)

lemma rounds_stop_trace:
  assumes "int k \<le> maxRetries c"
  shows "rounds c u init [0..<k] @ [Fetch u init] = attempt_trace u init k"
proof -
  have "\<forall>j \<in> set [0..<k]. int j < maxRetries c" using assms by auto
  then show ?thesis by (simp add: rounds_sleeping attempt_trace_def)
qed

lemma rounds_exhaust_trace:
  assumes "0 \<le> maxRetries c"
  shows "rounds c u init [0..<Suc (nat (maxRetries c))] = attempt_trace u init (nat (maxRetries c))"
proof -
  have "rounds c u init [0..<Suc (nat (maxRetries c))] =
          rounds c u init [0..<nat (maxRetries c)] @ rounds c u init [nat (maxRetries c)]"
    by (simp add: rounds_def)
  also have "rounds c u init [nat (maxRetries c)] = [Fetch u init]"
    using assms by (simp add: rounds_def)
  finally show ?thesis using rounds_stop_trace[of "nat (maxRetries c)" c u init] assms by simp
qed

lemma fetches_attempt_trace: "fetches (attempt_trace u init m) = replicate (Suc m) (u, init)"
proof -
  have "fetches (concat (map (\<lambda>k. [Fetch u init, Sleep (backoff k)]) ks)) = replicate (length ks) (u, init)" for ks
    by (induction ks) simp_all
  then show ?thesis by (simp add: attempt_trace_def fetches_append replicate_append_same)
qed

lemma sleeps_attempt_trace: "sleeps (attempt_trace u init m) = map backoff [0..<m]"
proof -
  have "sleeps (concat (map (\<lambda>k. [Fetch u init, Sleep (backoff k)]) ks)) = map backoff ks" for ks
    by (induction ks) simp_all
  then show ?thesis by (simp add: attempt_trace_def sleeps_append)
qed

lemma request_exhaust:
  assumes url: "buildUrl URL_new c (path options) (query options) = Inr u"
    and n: "0 \<le> maxRetries c"
    and all: "\<forall>k. int k \<le> maxRetries c \<longrightarrow> (\<exists>e. attempt_once (fetch k) = Fallthrough e)"
    and last: "attempt_once (fetch (nat (maxRetries c))) = Fallthrough e"
  shows "request URL_new fetch c options =
           (Inl e, attempt_trace u (build_init c options) (nat (maxRetries c)))"
proof -
  have "request_loop c fetch u (build_init c options) 0 None =
          (Inl (the (fallthrough_error (attempt_once (fetch (nat (maxRetries c)))))),
           rounds c u (build_init c options) [0..<Suc (nat (maxRetries c))])"
    using all n by (intro request_loop_exhaust) auto
  then show ?thesis
    unfolding rounds_exhaust_trace[OF n] by (simp add: request_def url last)
qed

lemma request_stop:
  assumes url: "buildUrl URL_new c (path options) (query options) = Inr u"
    and k: "int k \<le> maxRetries c"
    and prev: "\<forall>j<k. \<exists>e. attempt_once (fetch j) = Fallthrough e"
    and stop: "attempt_once (fetch k) = Return v \<or> attempt_once (fetch k) = Throw e"
  shows "request URL_new fetch c options =
           ((case attempt_once (fetch k) of Return v \<Rightarrow> Inr v | Throw e \<Rightarrow> Inl e
               | Fallthrough e \<Rightarrow> Inl e),
            attempt_trace u (build_init c options) k)"
proof -
  from stop have "fallthrough_error (attempt_once (fetch k)) = None" by auto
  then have "request_loop c fetch u (build_init c options) 0 None =
          ((case attempt_once (fetch k) of Return v \<Rightarrow> Inr v | Throw e \<Rightarrow> Inl e
               | Fallthrough e \<Rightarrow> Inl e),
           rounds c u (build_init c options) [0..<k] @ [Fetch u (build_init c options)])"
    using prev k by (intro request_loop_stop) auto
  then show ?thesis
    by (simp add: request_def url rounds_stop_trace[OF k])
qed

lemma URL_examples:
  "URL_at_origin ''/api/routing'' ''https://api.supp.support'' =
     Inr \<lparr> url_prefix = ''https://api.supp.support/api/routing'', url_query = None,
           url_fragment = None, searchParams = [] \<rparr>"
  "URL_at_origin ''/api/routing/42'' ''https://api.supp.support'' =
     Inr \<lparr> url_prefix = ''https://api.supp.support/api/routing/42'', url_query = None,
           url_fragment = None, searchParams = [] \<rparr>"
  "URL_at_origin ''/api/routing'' ''https://api.example.com'' =
     Inr \<lparr> url_prefix = ''https://api.example.com/api/routing'', url_query = None,
           url_fragment = None, searchParams = [] \<rparr>"
  "URL_at_origin ''/api/routing/42'' ''https://api.example.com'' =
     Inr \<lparr> url_prefix = ''https://api.example.com/api/routing/42'', url_query = None,
           url_fragment = None, searchParams = [] \<rparr>"
  "URL_at_origin ''/api/classify'' ''https://api.example.com'' =
     Inr \<lparr> url_prefix = ''https://api.example.com/api/classify'', url_query = None,
           url_fragment = None, searchParams = [] \<rparr>"
  "URL_at_origin ''/api/billing'' ''https://api.example.com'' =
     Inr \<lparr> url_prefix = ''https://api.example.com/api/billing'', url_query = None,
           url_fragment = None, searchParams = [] \<rparr>"
  by code_simp+

lemma decimal_503: "decimal 503 = ''503''" by code_simp

lemma attempt_once_timeout_or_server_error:
  "timeout_or_server_error out \<Longrightarrow> \<exists>e. attempt_once out = Fallthrough e"
  using attempt_once_abort attempt_once_server_error
  by (auto simp: timeout_or_server_error_def)

lemma request_loop_error_source:
  assumes "fst (request_loop c fetch u init a le) = Inl e" and "int a \<le> maxRetries c"
  shows "(\<exists>k. int k \<le> maxRetries c \<and> attempt_once (fetch k) = Throw e)
         \<or> attempt_once (fetch (nat (maxRetries c))) = Fallthrough e"
  using assms
proof (induction c fetch u init a le rule: request_loop.induct)
  case (1 c fetch u init attempt lastError)
  note le = "1.prems"(2)
  show ?case
  proof (cases "attempt_once (fetch attempt)")
    case (Return v)
    with "1.prems" show ?thesis by (subst (asm) request_loop.simps) simp
  next
    case (Throw e')
    with "1.prems" have "e' = e" by (subst (asm) request_loop.simps) simp
    with Throw le show ?thesis by blast
  next
    case (Fallthrough e')
    from "1.prems"(1) have nxt: "fst (request_loop c fetch u init (attempt + 1) (Some e')) = Inl e"
      by (subst (asm) request_loop.simps) (simp add: le Fallthrough Let_def)
    show ?thesis
    proof (cases "int attempt < maxRetries c")
      case True
      then have "int (attempt + 1) \<le> maxRetries c" by simp
      from "1.IH"[OF le Fallthrough refl nxt this] show ?thesis .
    next
      case False
      with le have eq: "maxRetries c = int attempt" by simp
      from nxt have "e' = e" by (subst (asm) request_loop.simps) (simp add: eq)
      with Fallthrough eq show ?thesis by simp
    qed
  qed
qed

lemma buildError_status: "status (buildError st msg) = st"
  by (simp add: buildError_def ValidationError_def AuthenticationError_def
        InsufficientBalanceError_def ForbiddenError_def NotFoundError_def RateLimitError_def
        SuppError_def)

lemma buildError_code:
  "code (buildError st msg) \<in> set stable_codes \<or> code (buildError st msg) = ''HTTP_'' @ decimal st"
  by (simp add: buildError_def ValidationError_def AuthenticationError_def
        InsufficientBalanceError_def ForbiddenError_def NotFoundError_def RateLimitError_def
        SuppError_def stable_codes_def)

lemma attempt_once_rejected:
  "rejection out = Some x \<Longrightarrow> attempt_once out = catch_block x"
proof (cases out)
  case (FetchRejected y)
  assume "rejection out = Some x"
  with FetchRejected show ?thesis
    by (cases x) (simp_all add: attempt_once_def try_block_def catch_block_def)
next
  case (Response st js)
  assume r: "rejection out = Some x"
  show ?thesis
  proof (cases js)
    case (Resolved j)
    with r Response show ?thesis by simp
  next
    case (Rejected y)
    with r Response have "200 \<le> st \<and> st \<le> 299" and "y = x"
      by (auto split: if_splits)
    with Response Rejected show ?thesis
      by (cases x) (simp_all add: attempt_once_def try_block_def catch_block_def)
  qed
qed

lemma deciding_attempt:
  fixes P :: "nat \<Rightarrow> completion"
  shows "\<exists>k\<le>n. (\<forall>j<k. \<exists>e. P j = Fallthrough e) \<and> (k = n \<or> fallthrough_error (P k) = None)"
proof (induction n)
  case 0
  then show ?case by simp
next
  case (Suc n)
  then obtain k where k: "k \<le> n" "\<forall>j<k. \<exists>e. P j = Fallthrough e"
    "k = n \<or> fallthrough_error (P k) = None" by blast
  show ?case
  proof (cases "fallthrough_error (P k) = None")
    case True
    with k show ?thesis by (intro exI[of _ k]) simp
  next
    case False
    with k have kn: "k = n" by blast
    from False obtain e where "P n = Fallthrough e"
      unfolding kn by (cases "P n") simp_all
    with k(2) kn have "\<forall>j<Suc n. \<exists>e. P j = Fallthrough e"
      by (auto simp: less_Suc_eq)
    then show ?thesis by (intro exI[of _ "Suc n"]) simp
  qed
qed

text \<open>
  The scenario of the specification: a 400 response with the body \<open>{"error": "bad intent"}\<close>
  gives one call and the \<open>ValidationError\<close> with that message. The table of \<open>buildError\<close>
  and the message of a response, case by case.
\<close>

lemma request_400_bad_intent:
  "request URL_at_origin
      (scripted [] (Response 400 (Resolved (JObj [(''error'', JStr ''bad intent'')]))))
      \<lparr> apiKey = ''sk_live_abc123'', baseUrl = ''https://api.example.com'',
        maxRetries = 2, timeout = 30000 \<rparr>
      \<lparr> req_method = POST, path = ''/api/classify'', body = Some [(''message'', JStr ''hi'')],
        query = None \<rparr> =
     (Inl (SuppErr \<lparr> name = ''ValidationError'', message = ''bad intent'', status = 400,
                      code = ''VALIDATION_ERROR'' \<rparr>),
      [Fetch ''https://api.example.com/api/classify''
         \<lparr> init_method = POST,
           init_headers = [(''X-API-Key'', ''sk_live_abc123''), (''Content-Type'', ''application/json'')],
           init_body = Some (JSON_stringify (JObj [(''message'', JStr ''hi'')])) \<rparr>])"
  by (simp add: request_def buildUrl_def URL_examples url_toString_def request_loop.simps
        scripted_def attempt_once_def try_block_def catch_block_def build_init_def
        error_message_def ToString_def buildError_def ValidationError_def SuppError_def)

lemma buildError_table:
  "buildError 400 msg = \<lparr> name = ''ValidationError'', message = msg, status = 400, code = ''VALIDATION_ERROR'' \<rparr>"
  "buildError 401 msg = \<lparr> name = ''AuthenticationError'', message = msg, status = 401, code = ''AUTHENTICATION_ERROR'' \<rparr>"
  "buildError 402 msg = \<lparr> name = ''InsufficientBalanceError'', message = msg, status = 402, code = ''INSUFFICIENT_BALANCE'' \<rparr>"
  "buildError 403 msg = \<lparr> name = ''ForbiddenError'', message = msg, status = 403, code = ''FORBIDDEN'' \<rparr>"
  "buildError 404 msg = \<lparr> name = ''NotFoundError'', message = msg, status = 404, code = ''NOT_FOUND'' \<rparr>"
  "buildError 429 msg = \<lparr> name = ''RateLimitError'', message = msg, status = 429, code = ''RATE_LIMITED'' \<rparr>"
  "st \<notin> {400, 401, 402, 403, 404, 429} \<Longrightarrow>
     buildError st msg = \<lparr> name = ''SuppError'', message = msg, status = st, code = ''HTTP_'' @ decimal st \<rparr>"
  by (simp_all add: buildError_def ValidationError_def AuthenticationError_def
        InsufficientBalanceError_def ForbiddenError_def NotFoundError_def RateLimitError_def
        SuppError_def)

lemma error_message_cases:
  "error_message st (Rejected x) = Inr (JStr (''Request failed with status '' @ decimal st))"
  "map_of kvs ''error'' = None \<Longrightarrow>
     error_message st (Resolved (JObj kvs)) = Inr (JStr (''Request failed with status '' @ decimal st))"
  "map_of kvs ''error'' = Some (JStr s) \<Longrightarrow> error_message st (Resolved (JObj kvs)) = Inr (JStr s)"
  "error_message st (Resolved JNull) = Inl (null_read ''error'')"
  by (simp_all add: error_message_def)



lemma buildError_message: "message (buildError st msg) = msg"
  by (simp add: buildError_def ValidationError_def AuthenticationError_def
        InsufficientBalanceError_def ForbiddenError_def NotFoundError_def RateLimitError_def
        SuppError_def)

lemma request_decided:
  assumes url: "buildUrl URL_new c (path options) (query options) = Inr u"
    and n: "0 \<le> maxRetries c"
    and fail: "fst (request URL_new fetch c options) = Inl e"
  shows "\<exists>k. int k \<le> maxRetries c
           \<and> snd (request URL_new fetch c options) = attempt_trace u (build_init c options) k
           \<and> (attempt_once (fetch k) = Throw e
                \<or> (int k = maxRetries c \<and> attempt_once (fetch k) = Fallthrough e))"
proof -
  from deciding_attempt[of "nat (maxRetries c)" "\<lambda>j. attempt_once (fetch j)"]
  obtain k where kn: "k \<le> nat (maxRetries c)"
    and prev: "\<forall>j<k. \<exists>e. attempt_once (fetch j) = Fallthrough e"
    and dec: "k = nat (maxRetries c) \<or> fallthrough_error (attempt_once (fetch k)) = None"
    by blast
  from kn n have k: "int k \<le> maxRetries c" by simp
  show ?thesis
  proof (cases "fallthrough_error (attempt_once (fetch k)) = None")
    case True
    then have stop: "(\<exists>v. attempt_once (fetch k) = Return v) \<or> (\<exists>e'. attempt_once (fetch k) = Throw e')"
      by (cases "attempt_once (fetch k)") simp_all
    then obtain v e' where "attempt_once (fetch k) = Return v \<or> attempt_once (fetch k) = Throw e'"
      by blast
    from request_stop[OF url k prev this]
    have run: "request URL_new fetch c options =
           ((case attempt_once (fetch k) of Return v \<Rightarrow> Inr v | Throw e \<Rightarrow> Inl e
               | Fallthrough e \<Rightarrow> Inl e),
            attempt_trace u (build_init c options) k)" .
    with fail stop have "attempt_once (fetch k) = Throw e" by auto
    with run k show ?thesis by (intro exI[of _ k]) simp
  next
    case False
    with dec have eq: "k = nat (maxRetries c)" by blast
    from False obtain e' where a: "attempt_once (fetch k) = Fallthrough e'"
      by (cases "attempt_once (fetch k)") simp_all
    have all: "\<forall>i. int i \<le> maxRetries c \<longrightarrow> (\<exists>e. attempt_once (fetch i) = Fallthrough e)"
    proof (intro allI impI)
      fix i assume "int i \<le> maxRetries c"
      then have "i < k \<or> i = k" using eq n by auto
      then show "\<exists>e. attempt_once (fetch i) = Fallthrough e" using prev a by auto
    qed
    from request_exhaust[OF url n all, of e'] a eq
    have run: "request URL_new fetch c options =
                 (Inl e', attempt_trace u (build_init c options) k)" by simp
    with fail have "e' = e" by simp
    with run a eq n show ?thesis by (intro exI[of _ k]) simp
  qed
qed












text \<open>
  A message that has no conversion to a string: the constructor's \<open>super(message)\<close> throws
  inside the \<open>try\<close> block, and the attempt falls through to the backoff with the
  \<open>TypeError\<close> as the last error, for a 5xx and for a 4xx alike.
\<close>

lemma attempt_once_unconvertible_message:
  "attempt_once (Response 503
      (Resolved (JObj [(''error'', JObj [(''toString'', JNum (Number ''1''))])]))) =
     Fallthrough (ErrorObj ''TypeError'' ''Cannot convert object to primitive value'')"
  "attempt_once (Response 400
      (Resolved (JObj [(''error'', JObj [(''toString'', JNum (Number ''1''))])]))) =
     Fallthrough (ErrorObj ''TypeError'' ''Cannot convert object to primitive value'')"
  by (simp_all add: attempt_once_def try_block_def catch_block_def error_message_def
        ToString_def not_primitive_def)

section \<open>Construction\<close>

text \<open>
  C10. Constructing a \<open>Supp\<close> client with an empty API key throws at once; the constructor
  has no access to the transport, so nothing is sent. With a non-empty key the construction
  succeeds and the stored configuration takes each option that is given, the base URL with
  one trailing slash removed, and otherwise the defaults \<open>https://api.supp.support\<close>,
  2 retries and 30000 ms.
\<close>

theorem Supp_new_config:
  "Supp_new [] options =
       Inl (ErrorObj ''Error'' ''API key is required. Get one at https://supp.support/dashboard'')
   \<and> (key \<noteq> [] \<longrightarrow>
         Supp_new key options =
           Inr \<lparr> apiKey = key,
                 baseUrl = (case opt_baseUrl options of
                              None \<Rightarrow> ''https://api.supp.support''
                            | Some b \<Rightarrow> if b \<noteq> [] \<and> last b = CHR ''/'' then butlast b else b),
                 maxRetries = (case opt_maxRetries options of None \<Rightarrow> 2 | Some m \<Rightarrow> m),
                 timeout = (case opt_timeout options of None \<Rightarrow> 30000 | Some t \<Rightarrow> t) \<rparr>)"
  by (simp add: Supp_new_def HttpClient_new_def strip_trailing_slash_def DEFAULT_BASE_URL_def
        DEFAULT_MAX_RETRIES_def DEFAULT_TIMEOUT_def split: option.splits)

theorem Supp_new_config_witness:
  "Supp_new [] \<lparr> opt_baseUrl = None, opt_maxRetries = None, opt_timeout = None \<rparr> =
       Inl (ErrorObj ''Error'' ''API key is required. Get one at https://supp.support/dashboard'')
   \<and> ''sk_live_abc123'' \<noteq> []
   \<and> Supp_new ''sk_live_abc123''
         \<lparr> opt_baseUrl = None, opt_maxRetries = None, opt_timeout = None \<rparr> =
       Inr \<lparr> apiKey = ''sk_live_abc123'', baseUrl = ''https://api.supp.support'',
             maxRetries = 2, timeout = 30000 \<rparr>
   \<and> Supp_new ''sk_live_abc123''
         \<lparr> opt_baseUrl = Some ''https://api.example.com/'', opt_maxRetries = Some 0,
           opt_timeout = Some 500 \<rparr> =
       Inr \<lparr> apiKey = ''sk_live_abc123'', baseUrl = ''https://api.example.com'',
             maxRetries = 0, timeout = 500 \<rparr>"
  using Supp_new_config [of "\<lparr> opt_baseUrl = None, opt_maxRetries = None, opt_timeout = None \<rparr>"
                            "''sk_live_abc123''"]
        Supp_new_config [of "\<lparr> opt_baseUrl = Some ''https://api.example.com/'',
                               opt_maxRetries = Some 0, opt_timeout = Some 500 \<rparr>"
                            "''sk_live_abc123''"]
  by simp

section \<open>What is sent\<close>

text \<open>
  C5. For every descriptor whose method is GET, no body is serialised (the \<open>RequestInit\<close>
  has no \<open>body\<close>) and no call of the transport carries one, whatever the descriptor's
  \<open>body\<close> field holds.
\<close>

theorem request_GET_sends_no_body:
  assumes "req_method options = GET"
  shows "init_body (build_init c options) = None
         \<and> (\<forall>x \<in> set (fetches (snd (request URL_new fetch c options))). init_body (snd x) = None)"
proof -
  have none: "init_body (build_init c options) = None"
    using assms by (simp add: build_init_def Let_def split: option.splits)
  with request_fetches_init show ?thesis by metis
qed

theorem request_GET_sends_no_body_witness:
  "req_method \<lparr> req_method = GET, path = ''/api/routing'',
                  body = Some [(''intent'', JStr ''refund'')], query = None \<rparr> = GET
   \<and> map snd (fetches (snd (request URL_at_origin (scripted [] (Response 200 (Resolved (JObj []))))
          \<lparr> apiKey = ''sk_live_abc123'', baseUrl = ''https://api.supp.support'',
            maxRetries = 2, timeout = 30000 \<rparr>
          \<lparr> req_method = GET, path = ''/api/routing'',
            body = Some [(''intent'', JStr ''refund'')], query = None \<rparr>))) =
       [\<lparr> init_method = GET,
          init_headers = [(''X-API-Key'', ''sk_live_abc123''), (''Content-Type'', ''application/json'')],
          init_body = None \<rparr>]"
proof -
  let ?o = "\<lparr> req_method = GET, path = ''/api/routing'',
              body = Some [(''intent'', JStr ''refund'')], query = None \<rparr>"
  let ?c = "\<lparr> apiKey = ''sk_live_abc123'', baseUrl = ''https://api.supp.support'',
              maxRetries = 2, timeout = 30000 \<rparr>"
  have g: "req_method ?o = GET" by simp
  have run: "fetches (snd (request URL_at_origin (scripted [] (Response 200 (Resolved (JObj [])))) ?c ?o)) =
       [(''https://api.supp.support/api/routing'', build_init ?c ?o)]"
    by (simp add: request_def buildUrl_def URL_examples url_toString_def request_loop.simps
          scripted_def attempt_once_def try_block_def)
  from request_GET_sends_no_body[OF g, of ?c]
  have "init_body (build_init ?c ?o) = None" by blast
  then have "build_init ?c ?o = \<lparr> init_method = GET,
          init_headers = [(''X-API-Key'', ''sk_live_abc123''), (''Content-Type'', ''application/json'')],
          init_body = None \<rparr>"
    by (simp add: build_init_def Let_def)
  with run g show ?thesis by simp
qed

text \<open>
  C3, as the code has it. On every attempt of every request the headers are the same two:
  \<open>X-API-Key\<close> with the configured key and \<open>Content-Type: application/json\<close>. The
  content type does not depend on the method or on the presence of a body.
\<close>

theorem request_headers_every_attempt:
  "\<forall>x \<in> set (fetches (snd (request URL_new fetch c options))).
     init_headers (snd x) = [(''X-API-Key'', apiKey c), (''Content-Type'', ''application/json'')]"
proof
  fix x
  assume "x \<in> set (fetches (snd (request URL_new fetch c options)))"
  then have "snd x = build_init c options" by (rule request_fetches_init)
  then show "init_headers (snd x) = [(''X-API-Key'', apiKey c), (''Content-Type'', ''application/json'')]"
    by (simp add: build_init_def Let_def split: option.splits)
qed

theorem request_headers_every_attempt_witness:
  "map snd (fetches (snd (request URL_at_origin (scripted [] (Response 503 (Resolved (JObj []))))
      \<lparr> apiKey = ''sk_live_abc123'', baseUrl = ''https://api.supp.support'',
        maxRetries = 1, timeout = 30000 \<rparr>
      \<lparr> req_method = DELETE, path = ''/api/routing/42'', body = None, query = None \<rparr>))) =
     [\<lparr> init_method = DELETE,
        init_headers = [(''X-API-Key'', ''sk_live_abc123''), (''Content-Type'', ''application/json'')],
        init_body = None \<rparr>,
      \<lparr> init_method = DELETE,
        init_headers = [(''X-API-Key'', ''sk_live_abc123''), (''Content-Type'', ''application/json'')],
        init_body = None \<rparr>]"
proof -
  let ?c = "\<lparr> apiKey = ''sk_live_abc123'', baseUrl = ''https://api.supp.support'',
              maxRetries = 1, timeout = 30000 \<rparr>"
  let ?o = "\<lparr> req_method = DELETE, path = ''/api/routing/42'', body = None, query = None \<rparr>"
  let ?f = "scripted [] (Response 503 (Resolved (JObj [])))"
  have run: "fetches (snd (request URL_at_origin ?f ?c ?o)) =
       [(''https://api.supp.support/api/routing/42'', build_init ?c ?o),
        (''https://api.supp.support/api/routing/42'', build_init ?c ?o)]"
    by (simp add: request_def buildUrl_def URL_examples url_toString_def request_loop.simps
          scripted_def attempt_once_def try_block_def error_message_def ToString_def)
  have "\<forall>x \<in> set (fetches (snd (request URL_at_origin ?f ?c ?o))).
          init_headers (snd x) = [(''X-API-Key'', apiKey ?c), (''Content-Type'', ''application/json'')]"
    by (rule request_headers_every_attempt)
  with run have "init_headers (build_init ?c ?o) =
      [(''X-API-Key'', ''sk_live_abc123''), (''Content-Type'', ''application/json'')]"
    by simp
  moreover have "init_method (build_init ?c ?o) = DELETE" "init_body (build_init ?c ?o) = None"
    by (simp_all add: build_init_def)
  ultimately have "build_init ?c ?o = \<lparr> init_method = DELETE,
        init_headers = [(''X-API-Key'', ''sk_live_abc123''), (''Content-Type'', ''application/json'')],
        init_body = None \<rparr>"
    by (cases "build_init ?c ?o") simp
  with run show ?thesis by simp
qed

text \<open>
  C3 as stated fails: a GET request without a body is sent with the
  \<open>Content-Type: application/json\<close> header.
\<close>

theorem request_Content_Type_on_bodyless_GET:
  "fetches (snd (request URL_at_origin (scripted [] (Response 200 (Resolved (JObj []))))
      \<lparr> apiKey = ''sk_live_abc123'', baseUrl = ''https://api.supp.support'',
        maxRetries = 2, timeout = 30000 \<rparr>
      \<lparr> req_method = GET, path = ''/api/routing'', body = None, query = None \<rparr>)) =
     [(''https://api.supp.support/api/routing'',
       \<lparr> init_method = GET,
         init_headers = [(''X-API-Key'', ''sk_live_abc123''), (''Content-Type'', ''application/json'')],
         init_body = None \<rparr>)]"
  by (simp add: request_def buildUrl_def URL_examples url_toString_def request_loop.simps
        scripted_def attempt_once_def try_block_def build_init_def)

section \<open>Retry and backoff\<close>

text \<open>
  C1, as the code has it. Let the attempts before attempt \<open>k\<close> all be answered with a status
  of 500 or more, with \<open>k\<close> within \<open>maxRetries\<close>. When attempt \<open>k\<close> is the last one
  (\<open>k = maxRetries\<close>) and is answered with such a status too, the run makes exactly the
  attempts \<open>0, ..., k\<close>, one call each, and sleeps \<open>min (1000 * 2 ^ a) 8000\<close> ms after each
  attempt \<open>a < k\<close>; the error thrown is the \<open>SuppError\<close> built from the status and the message
  of that last response, provided the message is read from the body (the body does not decode
  to \<open>null\<close>) and has a conversion to a string. When attempt \<open>k\<close> returns a status below 500
  that is not 2xx, with such a message, the same calls and sleeps are made and the error
  mapped from that status is thrown at once. When attempt \<open>k\<close> returns a 2xx whose body is
  read and decodes to a value other than \<open>null\<close>, the unwrapped value is returned at once.
\<close>

theorem request_server_errors:
  assumes url: "buildUrl URL_new c (path options) (query options) = Inr u"
    and k: "int k \<le> maxRetries c"
    and prev: "\<forall>j<k. status_5xx (fetch j)"
  shows
    "(int k = maxRetries c \<and> status_5xx (fetch k) \<longrightarrow>
        snd (request URL_new fetch c options) = attempt_trace u (build_init c options) k)
     \<and> (\<forall>st js m. int k = maxRetries c \<and> fetch k = Response st js \<and> 500 \<le> st
                    \<and> error_message st js = Inr m \<and> convertible m \<longrightarrow>
           request URL_new fetch c options =
             (Inl (SuppErr (SuppError (String_json m) st None)),
              attempt_trace u (build_init c options) k))
     \<and> (\<forall>st js m. fetch k = Response st js \<and> \<not> (200 \<le> st \<and> st \<le> 299) \<and> st < 500
                    \<and> error_message st js = Inr m \<and> convertible m \<longrightarrow>
           request URL_new fetch c options =
             (Inl (SuppErr (buildError st (String_json m))),
              attempt_trace u (build_init c options) k))
     \<and> (\<forall>st j. fetch k = Response st (Resolved j) \<and> 200 \<le> st \<and> st \<le> 299 \<and> j \<noteq> JNull \<longrightarrow>
           request URL_new fetch c options =
             (Inr (case j of
                     JObj kvs \<Rightarrow> (case map_of kvs ''data'' of
                                   None \<Rightarrow> j
                                 | Some v \<Rightarrow> if v = JNull then j else v)
                   | _ \<Rightarrow> j),
              attempt_trace u (build_init c options) k))
     \<and> fetches (attempt_trace u (build_init c options) k) = replicate (Suc k) (u, build_init c options)
     \<and> sleeps (attempt_trace u (build_init c options) k) = map (\<lambda>a. min (1000 * 2 ^ a) 8000) [0..<k]"
proof -
  have prev': "\<forall>j<k. \<exists>e. attempt_once (fetch j) = Fallthrough e"
    using prev attempt_once_status_5xx by blast
  have exhaust: "request URL_new fetch c options =
                   (Inl e, attempt_trace u (build_init c options) k)"
    if eq: "int k = maxRetries c" and a: "attempt_once (fetch k) = Fallthrough e" for e
  proof -
    have n: "0 \<le> maxRetries c" and kn: "nat (maxRetries c) = k" using eq by auto
    have all: "\<forall>i. int i \<le> maxRetries c \<longrightarrow> (\<exists>e. attempt_once (fetch i) = Fallthrough e)"
    proof (intro allI impI)
      fix i assume "int i \<le> maxRetries c"
      then have "i < k \<or> i = k" using eq by auto
      then show "\<exists>e. attempt_once (fetch i) = Fallthrough e" using prev' a by auto
    qed
    have "request URL_new fetch c options =
            (Inl e, attempt_trace u (build_init c options) (nat (maxRetries c)))"
      using a by (intro request_exhaust[OF url n all]) (simp add: kn)
    then show ?thesis by (simp add: kn)
  qed
  have A0: "snd (request URL_new fetch c options) = attempt_trace u (build_init c options) k"
    if eq: "int k = maxRetries c" and s5: "status_5xx (fetch k)"
  proof -
    from attempt_once_status_5xx[OF s5] obtain e where "attempt_once (fetch k) = Fallthrough e" ..
    from exhaust[OF eq this] show ?thesis by simp
  qed
  have A: "request URL_new fetch c options =
             (Inl (SuppErr (SuppError (String_json m) st None)),
              attempt_trace u (build_init c options) k)"
    if eq: "int k = maxRetries c" and f: "fetch k = Response st js" and st: "500 \<le> st"
      and m: "error_message st js = Inr m" and cv: "convertible m" for st js m
    using exhaust[OF eq] attempt_once_5xx_typed[OF st m cv] f by simp
  have B: "request URL_new fetch c options =
             (Inl (SuppErr (buildError st (String_json m))),
              attempt_trace u (build_init c options) k)"
    if f: "fetch k = Response st js" and nok: "\<not> (200 \<le> st \<and> st \<le> 299)" and lt: "st < 500"
      and m: "error_message st js = Inr m" and cv: "convertible m" for st js m
  proof -
    have a: "attempt_once (fetch k) = Throw (SuppErr (buildError st (String_json m)))"
      using attempt_once_client_error[OF nok lt m cv] f by simp
    from request_stop[OF url k prev', of undefined "SuppErr (buildError st (String_json m))"] a
    show ?thesis by simp
  qed
  have C: "request URL_new fetch c options =
             (Inr (case j of
                     JObj kvs \<Rightarrow> (case map_of kvs ''data'' of
                                   None \<Rightarrow> j
                                 | Some v \<Rightarrow> if v = JNull then j else v)
                   | _ \<Rightarrow> j),
              attempt_trace u (build_init c options) k)"
    if f: "fetch k = Response st (Resolved j)" and ok: "200 \<le> st" "st \<le> 299" and j: "j \<noteq> JNull" for st j
  proof -
    let ?v = "case j of
                     JObj kvs \<Rightarrow> (case map_of kvs ''data'' of
                                   None \<Rightarrow> j
                                 | Some v \<Rightarrow> if v = JNull then j else v)
                   | _ \<Rightarrow> j"
    have a: "attempt_once (fetch k) = Return ?v"
      using attempt_once_ok[OF ok j] f by simp
    from request_stop[OF url k prev', of ?v undefined] a show ?thesis by simp
  qed
  have D: "sleeps (attempt_trace u (build_init c options) k) = map (\<lambda>a. min (1000 * 2 ^ a) 8000) [0..<k]"
    by (simp add: sleeps_attempt_trace backoff_def)
  from A0 A B C D fetches_attempt_trace show ?thesis by blast
qed

theorem request_server_errors_witness:
  "request URL_at_origin
      (scripted [] (Response 503 (Resolved (JObj [(''error'', JStr ''unavailable'')]))))
      \<lparr> apiKey = ''sk_live_abc123'', baseUrl = ''https://api.example.com'',
        maxRetries = 2, timeout = 30000 \<rparr>
      \<lparr> req_method = DELETE, path = ''/api/routing/42'', body = None, query = None \<rparr> =
     (Inl (SuppErr \<lparr> name = ''SuppError'', message = ''unavailable'', status = 503,
                      code = ''HTTP_503'' \<rparr>),
      [Fetch ''https://api.example.com/api/routing/42''
         \<lparr> init_method = DELETE,
           init_headers = [(''X-API-Key'', ''sk_live_abc123''), (''Content-Type'', ''application/json'')],
           init_body = None \<rparr>,
       Sleep 1000,
       Fetch ''https://api.example.com/api/routing/42''
         \<lparr> init_method = DELETE,
           init_headers = [(''X-API-Key'', ''sk_live_abc123''), (''Content-Type'', ''application/json'')],
           init_body = None \<rparr>,
       Sleep 2000,
       Fetch ''https://api.example.com/api/routing/42''
         \<lparr> init_method = DELETE,
           init_headers = [(''X-API-Key'', ''sk_live_abc123''), (''Content-Type'', ''application/json'')],
           init_body = None \<rparr>])
   \<and> request URL_at_origin
      (scripted [Response 503 (Resolved (JObj []))]
         (Response 404 (Resolved (JObj [(''error'', JStr ''no such rule'')]))))
      \<lparr> apiKey = ''sk_live_abc123'', baseUrl = ''https://api.example.com'',
        maxRetries = 2, timeout = 30000 \<rparr>
      \<lparr> req_method = DELETE, path = ''/api/routing/42'', body = None, query = None \<rparr> =
     (Inl (SuppErr \<lparr> name = ''NotFoundError'', message = ''no such rule'', status = 404,
                      code = ''NOT_FOUND'' \<rparr>),
      [Fetch ''https://api.example.com/api/routing/42''
         \<lparr> init_method = DELETE,
           init_headers = [(''X-API-Key'', ''sk_live_abc123''), (''Content-Type'', ''application/json'')],
           init_body = None \<rparr>,
       Sleep 1000,
       Fetch ''https://api.example.com/api/routing/42''
         \<lparr> init_method = DELETE,
           init_headers = [(''X-API-Key'', ''sk_live_abc123''), (''Content-Type'', ''application/json'')],
           init_body = None \<rparr>])
   \<and> sleeps (snd (request URL_at_origin
      (scripted [] (Response 500 (Rejected (ErrorObj ''SyntaxError'' ''Unexpected token''))))
      \<lparr> apiKey = ''sk_live_abc123'', baseUrl = ''https://api.example.com'',
        maxRetries = 5, timeout = 30000 \<rparr>
      \<lparr> req_method = DELETE, path = ''/api/routing/42'', body = None, query = None \<rparr>)) =
     [1000, 2000, 4000, 8000, 8000]"
proof -
  let ?r = "Response 503 (Resolved (JObj [(''error'', JStr ''unavailable'')]))"
  let ?f = "scripted [] ?r"
  let ?r4 = "Response 404 (Resolved (JObj [(''error'', JStr ''no such rule'')]))"
  let ?g = "scripted [Response 503 (Resolved (JObj []))] ?r4"
  let ?r5 = "Response 500 (Rejected (ErrorObj ''SyntaxError'' ''Unexpected token''))"
  let ?h = "scripted [] ?r5"
  let ?c = "\<lparr> apiKey = ''sk_live_abc123'', baseUrl = ''https://api.example.com'',
              maxRetries = 2, timeout = 30000 \<rparr>"
  let ?c5 = "\<lparr> apiKey = ''sk_live_abc123'', baseUrl = ''https://api.example.com'',
              maxRetries = 5, timeout = 30000 \<rparr>"
  let ?o = "\<lparr> req_method = DELETE, path = ''/api/routing/42'', body = None, query = None \<rparr>"
  let ?u = "''https://api.example.com/api/routing/42''"
  have url: "buildUrl URL_at_origin ?c (path ?o) (query ?o) = Inr ?u"
    and url5: "buildUrl URL_at_origin ?c5 (path ?o) (query ?o) = Inr ?u"
    by (simp_all add: buildUrl_def URL_examples url_toString_def)
  have init: "build_init ?c ?o = \<lparr> init_method = DELETE,
           init_headers = [(''X-API-Key'', ''sk_live_abc123''), (''Content-Type'', ''application/json'')],
           init_body = None \<rparr>"
    by (simp add: build_init_def)
  have k: "int 2 \<le> maxRetries ?c" by simp
  have f: "?f j = ?r" for j by (simp add: scripted_def)
  have prev: "\<forall>j<2. status_5xx (?f j)" using f by (simp add: status_5xx_def)
  have m: "error_message 503 (Resolved (JObj [(''error'', JStr ''unavailable'')])) = Inr (JStr ''unavailable'')"
    by (simp add: error_message_def)
  have last: "int 2 = maxRetries ?c \<and> ?f 2 = ?r \<and> (500::nat) \<le> 503
                \<and> convertible (JStr ''unavailable'')"
    using f by simp
  from request_server_errors[OF url k prev] last m
  have run: "request URL_at_origin ?f ?c ?o =
                (Inl (SuppErr (SuppError (String_json (JStr ''unavailable'')) 503 None)),
                 attempt_trace ?u (build_init ?c ?o) 2)"
    by blast
  have tr: "attempt_trace u i 2 = [Fetch u i, Sleep 1000, Fetch u i, Sleep 2000, Fetch u i]" for u i
    by (simp add: attempt_trace_def backoff_def upt_rec)
  have A: "request URL_at_origin ?f ?c ?o =
     (Inl (SuppErr \<lparr> name = ''SuppError'', message = ''unavailable'', status = 503,
                      code = ''HTTP_503'' \<rparr>),
      [Fetch ?u (build_init ?c ?o), Sleep 1000, Fetch ?u (build_init ?c ?o), Sleep 2000,
       Fetch ?u (build_init ?c ?o)])"
    by (simp add: run tr SuppError_def decimal_503)
  have k1: "int 1 \<le> maxRetries ?c" by simp
  have g0: "?g 0 = Response 503 (Resolved (JObj []))" and g1: "?g 1 = ?r4"
    by (simp_all add: scripted_def)
  have prev1: "\<forall>j<1. status_5xx (?g j)" using g0 by (simp add: status_5xx_def)
  have m4: "error_message 404 (Resolved (JObj [(''error'', JStr ''no such rule'')])) = Inr (JStr ''no such rule'')"
    by (simp add: error_message_def)
  have stop: "?g 1 = ?r4 \<and> \<not> (200 \<le> (404::nat) \<and> (404::nat) \<le> 299) \<and> (404::nat) < 500
                \<and> convertible (JStr ''no such rule'')"
    using g1 by simp
  from request_server_errors[OF url k1 prev1] stop m4
  have run': "request URL_at_origin ?g ?c ?o =
                (Inl (SuppErr (buildError 404 (String_json (JStr ''no such rule'')))),
                 attempt_trace ?u (build_init ?c ?o) 1)"
    by blast
  have tr1: "attempt_trace u i (Suc 0) = [Fetch u i, Sleep 1000, Fetch u i]" for u i
    by (simp add: attempt_trace_def backoff_def)
  have B: "request URL_at_origin ?g ?c ?o =
     (Inl (SuppErr \<lparr> name = ''NotFoundError'', message = ''no such rule'', status = 404,
                      code = ''NOT_FOUND'' \<rparr>),
      [Fetch ?u (build_init ?c ?o), Sleep 1000, Fetch ?u (build_init ?c ?o)])"
    by (simp add: run' tr1 buildError_table)
  have k5: "int 5 \<le> maxRetries ?c5" by simp
  have h: "?h j = ?r5" for j by (simp add: scripted_def)
  have prev5: "\<forall>j<5. status_5xx (?h j)" using h by (simp add: status_5xx_def)
  have last5: "int 5 = maxRetries ?c5 \<and> status_5xx (?h 5)" using h by (simp add: status_5xx_def)
  from request_server_errors[OF url5 k5 prev5] last5
  have run5: "snd (request URL_at_origin ?h ?c5 ?o) = attempt_trace ?u (build_init ?c5 ?o) 5"
    and sl5: "sleeps (attempt_trace ?u (build_init ?c5 ?o) 5) = map (\<lambda>a. min (1000 * 2 ^ a) 8000) [0..<5]"
    by blast+
  have "map (\<lambda>a. min (1000 * 2 ^ a) 8000) [0..<5] = [1000, 2000, 4000, 8000, 8000::nat]"
    by (simp add: upt_rec)
  with run5 sl5 have C: "sleeps (snd (request URL_at_origin ?h ?c5 ?o)) = [1000, 2000, 4000, 8000, 8000]"
    by simp
  from A B C show ?thesis by (simp add: init)
qed

text \<open>
  C1 as stated fails in its last part: an attempt that returns a 2xx status does not end
  the loop when reading the body fails. The rejection of \<open>response.json()\<close> reaches the
  \<open>catch\<close> block, is recorded as the last error, and the request is retried with backoff.
\<close>

theorem request_retries_2xx_with_unread_body:
  "request URL_at_origin
      (scripted [] (Response 200 (Rejected (ErrorObj ''TypeError'' ''terminated''))))
      \<lparr> apiKey = ''sk_live_abc123'', baseUrl = ''https://api.example.com'',
        maxRetries = 2, timeout = 30000 \<rparr>
      \<lparr> req_method = GET, path = ''/api/routing'', body = None, query = None \<rparr> =
     (Inl (ErrorObj ''TypeError'' ''terminated''),
      [Fetch ''https://api.example.com/api/routing''
         \<lparr> init_method = GET,
           init_headers = [(''X-API-Key'', ''sk_live_abc123''), (''Content-Type'', ''application/json'')],
           init_body = None \<rparr>,
       Sleep 1000,
       Fetch ''https://api.example.com/api/routing''
         \<lparr> init_method = GET,
           init_headers = [(''X-API-Key'', ''sk_live_abc123''), (''Content-Type'', ''application/json'')],
           init_body = None \<rparr>,
       Sleep 2000,
       Fetch ''https://api.example.com/api/routing''
         \<lparr> init_method = GET,
           init_headers = [(''X-API-Key'', ''sk_live_abc123''), (''Content-Type'', ''application/json'')],
           init_body = None \<rparr>])"
  by (simp add: request_def buildUrl_def URL_examples url_toString_def request_loop.simps
        scripted_def attempt_once_def try_block_def catch_block_def build_init_def backoff_def)

text \<open>
  C6. An attempt that is aborted by the timeout timer is recorded as the last error and the
  loop goes on as after a server error: when the attempts before attempt \<open>k\<close> are each
  a timeout or a server error, the run makes the attempts \<open>0, ..., k\<close> with the same
  sleeps between them. If attempt \<open>k\<close> is the last one and times out, the error thrown is
  the \<open>SuppError\<close> with code \<open>TIMEOUT\<close> and status 408; if attempt \<open>k\<close> succeeds, its
  value is returned.
\<close>

theorem request_timeout:
  assumes url: "buildUrl URL_new c (path options) (query options) = Inr u"
    and k: "int k \<le> maxRetries c"
    and prev: "\<forall>j<k. timeout_or_server_error (fetch j)"
  shows
    "(int k = maxRetries c \<and> fetch k = FetchRejected AbortError \<longrightarrow>
        request URL_new fetch c options =
          (Inl (SuppErr \<lparr> name = ''SuppError'', message = ''Request timed out'', status = 408,
                           code = ''TIMEOUT'' \<rparr>),
           attempt_trace u (build_init c options) k))
     \<and> (\<forall>st j. fetch k = Response st (Resolved j) \<and> 200 \<le> st \<and> st \<le> 299 \<and> j \<noteq> JNull \<longrightarrow>
           request URL_new fetch c options =
             (Inr (case j of
                     JObj kvs \<Rightarrow> (case map_of kvs ''data'' of
                                   None \<Rightarrow> j
                                 | Some v \<Rightarrow> if v = JNull then j else v)
                   | _ \<Rightarrow> j),
              attempt_trace u (build_init c options) k))
     \<and> fetches (attempt_trace u (build_init c options) k) = replicate (Suc k) (u, build_init c options)
     \<and> sleeps (attempt_trace u (build_init c options) k) = map (\<lambda>a. min (1000 * 2 ^ a) 8000) [0..<k]"
proof -
  have prev': "\<forall>j<k. \<exists>e. attempt_once (fetch j) = Fallthrough e"
    using prev attempt_once_timeout_or_server_error by blast
  have A: "request URL_new fetch c options =
          (Inl (SuppErr \<lparr> name = ''SuppError'', message = ''Request timed out'', status = 408,
                           code = ''TIMEOUT'' \<rparr>),
           attempt_trace u (build_init c options) k)"
    if eq: "int k = maxRetries c" and ab: "fetch k = FetchRejected AbortError"
  proof -
    have a: "attempt_once (fetch k) =
               Fallthrough (SuppErr (SuppError ''Request timed out'' 408 (Some ''TIMEOUT'')))"
      using ab attempt_once_abort by simp
    have n: "0 \<le> maxRetries c" and kn: "nat (maxRetries c) = k" using eq by auto
    have all: "\<forall>i. int i \<le> maxRetries c \<longrightarrow> (\<exists>e. attempt_once (fetch i) = Fallthrough e)"
    proof (intro allI impI)
      fix i assume "int i \<le> maxRetries c"
      then have "i < k \<or> i = k" using eq by auto
      then show "\<exists>e. attempt_once (fetch i) = Fallthrough e" using prev' a by auto
    qed
    have "request URL_new fetch c options =
            (Inl (SuppErr (SuppError ''Request timed out'' 408 (Some ''TIMEOUT''))),
             attempt_trace u (build_init c options) (nat (maxRetries c)))"
      using a by (intro request_exhaust[OF url n all]) (simp add: kn)
    then show ?thesis by (simp add: kn SuppError_def)
  qed
  have C: "request URL_new fetch c options =
             (Inr (case j of
                     JObj kvs \<Rightarrow> (case map_of kvs ''data'' of
                                   None \<Rightarrow> j
                                 | Some v \<Rightarrow> if v = JNull then j else v)
                   | _ \<Rightarrow> j),
              attempt_trace u (build_init c options) k)"
    if f: "fetch k = Response st (Resolved j)" and ok: "200 \<le> st" "st \<le> 299" and j: "j \<noteq> JNull" for st j
  proof -
    let ?v = "case j of
                     JObj kvs \<Rightarrow> (case map_of kvs ''data'' of
                                   None \<Rightarrow> j
                                 | Some v \<Rightarrow> if v = JNull then j else v)
                   | _ \<Rightarrow> j"
    have a: "attempt_once (fetch k) = Return ?v"
      using attempt_once_ok[OF ok j] f by simp
    from request_stop[OF url k prev', of ?v undefined] a show ?thesis by simp
  qed
  have D: "sleeps (attempt_trace u (build_init c options) k) = map (\<lambda>a. min (1000 * 2 ^ a) 8000) [0..<k]"
    by (simp add: sleeps_attempt_trace backoff_def)
  from A C D fetches_attempt_trace show ?thesis by blast
qed

theorem request_timeout_witness:
  "request URL_at_origin
      (scripted [FetchRejected AbortError, Response 503 (Rejected (ErrorObj ''SyntaxError'' ''Unexpected token''))]
         (FetchRejected AbortError))
      \<lparr> apiKey = ''sk_live_abc123'', baseUrl = ''https://api.example.com'',
        maxRetries = 2, timeout = 30000 \<rparr>
      \<lparr> req_method = POST, path = ''/api/classify'', body = Some [(''message'', JStr ''hi'')],
        query = None \<rparr> =
     (Inl (SuppErr \<lparr> name = ''SuppError'', message = ''Request timed out'', status = 408,
                      code = ''TIMEOUT'' \<rparr>),
      [Fetch ''https://api.example.com/api/classify''
         \<lparr> init_method = POST,
           init_headers = [(''X-API-Key'', ''sk_live_abc123''), (''Content-Type'', ''application/json'')],
           init_body = Some (JSON_stringify (JObj [(''message'', JStr ''hi'')])) \<rparr>,
       Sleep 1000,
       Fetch ''https://api.example.com/api/classify''
         \<lparr> init_method = POST,
           init_headers = [(''X-API-Key'', ''sk_live_abc123''), (''Content-Type'', ''application/json'')],
           init_body = Some (JSON_stringify (JObj [(''message'', JStr ''hi'')])) \<rparr>,
       Sleep 2000,
       Fetch ''https://api.example.com/api/classify''
         \<lparr> init_method = POST,
           init_headers = [(''X-API-Key'', ''sk_live_abc123''), (''Content-Type'', ''application/json'')],
           init_body = Some (JSON_stringify (JObj [(''message'', JStr ''hi'')])) \<rparr>])"
proof -
  let ?f = "scripted [FetchRejected AbortError,
                      Response 503 (Rejected (ErrorObj ''SyntaxError'' ''Unexpected token''))]
              (FetchRejected AbortError)"
  let ?c = "\<lparr> apiKey = ''sk_live_abc123'', baseUrl = ''https://api.example.com'',
              maxRetries = 2, timeout = 30000 \<rparr>"
  let ?o = "\<lparr> req_method = POST, path = ''/api/classify'',
              body = Some [(''message'', JStr ''hi'')], query = None \<rparr>"
  let ?u = "''https://api.example.com/api/classify''"
  have url: "buildUrl URL_at_origin ?c (path ?o) (query ?o) = Inr ?u"
    by (simp add: buildUrl_def URL_examples url_toString_def)
  have k: "int 2 \<le> maxRetries ?c" by simp
  have f0: "?f 0 = FetchRejected AbortError"
    and f1: "?f 1 = Response 503 (Rejected (ErrorObj ''SyntaxError'' ''Unexpected token''))"
    and f2: "?f 2 = FetchRejected AbortError"
    by (simp_all add: scripted_def)
  have prev: "\<forall>j<2. timeout_or_server_error (?f j)"
  proof (intro allI impI)
    fix j :: nat assume "j < 2"
    then have "j = 0 \<or> j = 1" by auto
    then show "timeout_or_server_error (?f j)"
      using f0 f1 by (auto simp: timeout_or_server_error_def server_error_def)
  qed
  have last: "int 2 = maxRetries ?c \<and> ?f 2 = FetchRejected AbortError" using f2 by simp
  from request_timeout[OF url k prev] last
  have run: "request URL_at_origin ?f ?c ?o =
          (Inl (SuppErr \<lparr> name = ''SuppError'', message = ''Request timed out'', status = 408,
                           code = ''TIMEOUT'' \<rparr>),
           attempt_trace ?u (build_init ?c ?o) 2)"
    by blast
  have tr: "attempt_trace u i 2 = [Fetch u i, Sleep 1000, Fetch u i, Sleep 2000, Fetch u i]" for u i
    by (simp add: attempt_trace_def backoff_def upt_rec)
  have init: "build_init ?c ?o = \<lparr> init_method = POST,
           init_headers = [(''X-API-Key'', ''sk_live_abc123''), (''Content-Type'', ''application/json'')],
           init_body = Some (JSON_stringify (JObj [(''message'', JStr ''hi'')])) \<rparr>"
    by (simp add: build_init_def)
  show ?thesis by (simp add: run tr init)
qed

section \<open>Success\<close>

text \<open>
  C7, as the code has it. When the attempts before attempt \<open>k\<close> fell through to the backoff
  and attempt \<open>k\<close> returns a status in [200,300) whose body is read and decodes to a value
  other than \<open>null\<close>, the request returns at once: the value is the body's \<open>data\<close> property
  when the body is an object that has one and it is not \<open>null\<close>, else the whole decoded
  body; the call of attempt \<open>k\<close> is the last effect.
\<close>

theorem request_success_unwraps:
  assumes url: "buildUrl URL_new c (path options) (query options) = Inr u"
    and k: "int k \<le> maxRetries c"
    and prev: "\<forall>i<k. \<exists>e. attempt_once (fetch i) = Fallthrough e"
    and f: "fetch k = Response st (Resolved j)"
    and ok: "200 \<le> st" "st \<le> 299"
    and j: "j \<noteq> JNull"
  shows "request URL_new fetch c options =
           (Inr (case j of
                   JObj kvs \<Rightarrow> (case map_of kvs ''data'' of
                                 None \<Rightarrow> j
                               | Some v \<Rightarrow> if v = JNull then j else v)
                 | _ \<Rightarrow> j),
            attempt_trace u (build_init c options) k)
         \<and> last (attempt_trace u (build_init c options) k) = Fetch u (build_init c options)
         \<and> length (fetches (attempt_trace u (build_init c options) k)) = Suc k"
proof -
  let ?v = "case j of
              JObj kvs \<Rightarrow> (case map_of kvs ''data'' of
                            None \<Rightarrow> j
                          | Some v \<Rightarrow> if v = JNull then j else v)
            | _ \<Rightarrow> j"
  have a: "attempt_once (fetch k) = Return ?v"
    using attempt_once_ok[OF ok j] f by simp
  from request_stop[OF url k prev, of ?v undefined] a
  have "request URL_new fetch c options = (Inr ?v, attempt_trace u (build_init c options) k)"
    by simp
  moreover have "last (attempt_trace u (build_init c options) k) = Fetch u (build_init c options)"
    by (simp add: attempt_trace_def)
  ultimately show ?thesis by (simp add: fetches_attempt_trace)
qed

theorem request_success_unwraps_witness:
  "request URL_at_origin
      (scripted [] (Response 200 (Resolved (JObj [(''data'', JObj [(''intent'', JStr ''refund'')])]))))
      \<lparr> apiKey = ''sk_live_abc123'', baseUrl = ''https://api.example.com'',
        maxRetries = 2, timeout = 30000 \<rparr>
      \<lparr> req_method = GET, path = ''/api/routing/42'', body = None, query = None \<rparr> =
     (Inr (JObj [(''intent'', JStr ''refund'')]),
      [Fetch ''https://api.example.com/api/routing/42''
         \<lparr> init_method = GET,
           init_headers = [(''X-API-Key'', ''sk_live_abc123''), (''Content-Type'', ''application/json'')],
           init_body = None \<rparr>])
   \<and> request URL_at_origin
      (scripted [] (Response 201 (Resolved (JArr [JNum (Number ''1''), JNum (Number ''2'')]))))
      \<lparr> apiKey = ''sk_live_abc123'', baseUrl = ''https://api.example.com'',
        maxRetries = 2, timeout = 30000 \<rparr>
      \<lparr> req_method = GET, path = ''/api/routing/42'', body = None, query = None \<rparr> =
     (Inr (JArr [JNum (Number ''1''), JNum (Number ''2'')]),
      [Fetch ''https://api.example.com/api/routing/42''
         \<lparr> init_method = GET,
           init_headers = [(''X-API-Key'', ''sk_live_abc123''), (''Content-Type'', ''application/json'')],
           init_body = None \<rparr>])"
proof -
  let ?c = "\<lparr> apiKey = ''sk_live_abc123'', baseUrl = ''https://api.example.com'',
              maxRetries = 2, timeout = 30000 \<rparr>"
  let ?o = "\<lparr> req_method = GET, path = ''/api/routing/42'', body = None, query = None \<rparr>"
  let ?u = "''https://api.example.com/api/routing/42''"
  let ?j1 = "JObj [(''data'', JObj [(''intent'', JStr ''refund'')])]"
  let ?j2 = "JArr [JNum (Number ''1''), JNum (Number ''2'')]"
  have url: "buildUrl URL_at_origin ?c (path ?o) (query ?o) = Inr ?u"
    by (simp add: buildUrl_def URL_examples url_toString_def)
  have k: "int 0 \<le> maxRetries ?c" by simp
  have f1: "scripted [] (Response 200 (Resolved ?j1)) 0 = Response 200 (Resolved ?j1)"
    and f2: "scripted [] (Response 201 (Resolved ?j2)) 0 = Response 201 (Resolved ?j2)"
    by (simp_all add: scripted_def)
  have tr: "attempt_trace u i 0 = [Fetch u i]" for u i
    by (simp add: attempt_trace_def)
  have init: "build_init ?c ?o = \<lparr> init_method = GET,
           init_headers = [(''X-API-Key'', ''sk_live_abc123''), (''Content-Type'', ''application/json'')],
           init_body = None \<rparr>"
    by (simp add: build_init_def)
  have r1: "request URL_at_origin (scripted [] (Response 200 (Resolved ?j1))) ?c ?o =
              (Inr (JObj [(''intent'', JStr ''refund'')]), [Fetch ?u (build_init ?c ?o)])"
    using request_success_unwraps[where fetch = "scripted [] (Response 200 (Resolved ?j1))"
            and k = 0 and st = 200 and j = ?j1, OF url k] f1
    by (simp add: tr)
  have r2: "request URL_at_origin (scripted [] (Response 201 (Resolved ?j2))) ?c ?o =
              (Inr ?j2, [Fetch ?u (build_init ?c ?o)])"
    using request_success_unwraps[where fetch = "scripted [] (Response 201 (Resolved ?j2))"
            and k = 0 and st = 201 and j = ?j2, OF url k] f2
    by (simp add: tr)
  from r1 r2 show ?thesis by (simp add: init)
qed

text \<open>
  C7 as stated fails: a body whose \<open>data\<close> property is present with the value \<open>null\<close> is
  returned whole, since \<open>json.data ?? json\<close> takes \<open>null\<close> as absent.
\<close>

theorem request_null_data_returns_whole_body:
  "request URL_at_origin
      (scripted [] (Response 200 (Resolved (JObj [(''data'', JNull), (''ok'', JBool True)]))))
      \<lparr> apiKey = ''sk_live_abc123'', baseUrl = ''https://api.example.com'',
        maxRetries = 2, timeout = 30000 \<rparr>
      \<lparr> req_method = GET, path = ''/api/routing/42'', body = None, query = None \<rparr> =
     (Inr (JObj [(''data'', JNull), (''ok'', JBool True)]),
      [Fetch ''https://api.example.com/api/routing/42''
         \<lparr> init_method = GET,
           init_headers = [(''X-API-Key'', ''sk_live_abc123''), (''Content-Type'', ''application/json'')],
           init_body = None \<rparr>])"
  by (simp add: request_def buildUrl_def URL_examples url_toString_def request_loop.simps
        scripted_def attempt_once_def try_block_def build_init_def)

section \<open>Failures\<close>

text \<open>
  C4, as the code has it. Let \<open>request\<close> throw \<open>e\<close>. Either the URL constructor threw \<open>e\<close>
  before any attempt; or \<open>maxRetries\<close> is negative, no attempt is made and \<open>e\<close> is the typed
  fallback error; or the run made the attempts \<open>0, ..., k\<close> and attempt \<open>k\<close> decides \<open>e\<close>:
  \<^item> if attempt \<open>k\<close> got a response that is not 2xx whose message is read from the body and
    has a conversion to a string, \<open>e\<close> is a typed \<open>SuppError\<close> with that status, that message
    and a code that is one of the fixed code strings or \<open>HTTP_<status>\<close>; a status of 500 or
    more decides on the last attempt only;
  \<^item> if attempt \<open>k\<close> was aborted by the timeout, it is the last attempt and \<open>e\<close> is the typed
    error with code \<open>TIMEOUT\<close> and status 408;
  \<^item> if attempt \<open>k\<close> failed at the network level, it is the last attempt and \<open>e\<close> is the
    platform's own \<open>Error\<close> (a thrown value that is not an \<open>Error\<close> is wrapped in one): it
    has a name and a message and neither code nor status.
\<close>

theorem request_failure_typed_or_raw:
  assumes fail: "fst (request URL_new fetch c options) = Inl e"
  shows "buildUrl URL_new c (path options) (query options) = Inl e
     \<or> (maxRetries c < 0 \<and> e = SuppErr (SuppError ''Request failed after retries'' 500 None))
     \<or> (\<exists>k u. buildUrl URL_new c (path options) (query options) = Inr u
           \<and> int k \<le> maxRetries c
           \<and> snd (request URL_new fetch c options) = attempt_trace u (build_init c options) k
           \<and> (\<forall>st js m. fetch k = Response st js \<and> \<not> (200 \<le> st \<and> st \<le> 299)
                          \<and> error_message st js = Inr m \<and> convertible m \<longrightarrow>
                 (\<exists>se. e = SuppErr se \<and> status se = st \<and> message se = String_json m
                       \<and> (code se \<in> set stable_codes \<or> code se = ''HTTP_'' @ decimal st)))
           \<and> (\<forall>st js. fetch k = Response st js \<and> 500 \<le> st \<longrightarrow> int k = maxRetries c)
           \<and> (rejection (fetch k) = Some AbortError \<longrightarrow>
                 int k = maxRetries c
                 \<and> e = SuppErr \<lparr> name = ''SuppError'', message = ''Request timed out'',
                                  status = 408, code = ''TIMEOUT'' \<rparr>)
           \<and> (\<forall>nm msg. rejection (fetch k) = Some (ErrorObj nm msg) \<longrightarrow>
                 int k = maxRetries c \<and> e = ErrorObj nm msg)
           \<and> (\<forall>s. rejection (fetch k) = Some (NonError s) \<longrightarrow>
                 int k = maxRetries c \<and> e = ErrorObj ''Error'' s))"
proof (cases "buildUrl URL_new c (path options) (query options)")
  case (Inl e')
  with fail show ?thesis by (simp add: request_def)
next
  case (Inr u)
  show ?thesis
  proof (cases "maxRetries c < 0")
    case True
    then have "request_loop c fetch u (build_init c options) 0 None =
                 (Inl (SuppErr (SuppError ''Request failed after retries'' 500 None)), [])"
      by (subst request_loop.simps) simp
    with fail Inr True show ?thesis by (simp add: request_def)
  next
    case False
    then have n: "0 \<le> maxRetries c" by simp
    from request_decided[OF Inr n fail] obtain k where k: "int k \<le> maxRetries c"
      and tr: "snd (request URL_new fetch c options) = attempt_trace u (build_init c options) k"
      and dec: "attempt_once (fetch k) = Throw e
                \<or> (int k = maxRetries c \<and> attempt_once (fetch k) = Fallthrough e)"
      by blast
    have R: "\<exists>se. e = SuppErr se \<and> status se = st \<and> message se = String_json m
                       \<and> (code se \<in> set stable_codes \<or> code se = ''HTTP_'' @ decimal st)"
      if f: "fetch k = Response st js" and nok: "\<not> (200 \<le> st \<and> st \<le> 299)"
        and m: "error_message st js = Inr m" and cv: "convertible m" for st js m
    proof (cases "st < 500")
      case True
      from attempt_once_client_error[OF nok True m cv] f dec
      have "e = SuppErr (buildError st (String_json m))" by simp
      with buildError_status[of st "String_json m"] buildError_code[of st "String_json m"]
        buildError_message[of st "String_json m"]
      show ?thesis by blast
    next
      case False
      then have "500 \<le> st" by simp
      from attempt_once_5xx_typed[OF this m cv] f dec
      have "e = SuppErr (SuppError (String_json m) st None)" by simp
      then show ?thesis by (simp add: SuppError_def)
    qed
    have S: "int k = maxRetries c" if f: "fetch k = Response st js" and st: "500 \<le> st" for st js
      using attempt_once_5xx[OF st, of js] f dec by auto
    have T: "int k = maxRetries c
                 \<and> e = SuppErr \<lparr> name = ''SuppError'', message = ''Request timed out'',
                                  status = 408, code = ''TIMEOUT'' \<rparr>"
      if r: "rejection (fetch k) = Some AbortError"
      using attempt_once_rejected[OF r] dec by (auto simp: catch_block_def SuppError_def)
    have N: "int k = maxRetries c \<and> e = ErrorObj nm msg"
      if r: "rejection (fetch k) = Some (ErrorObj nm msg)" for nm msg
      using attempt_once_rejected[OF r] dec by (auto simp: catch_block_def)
    have V: "int k = maxRetries c \<and> e = ErrorObj ''Error'' s"
      if r: "rejection (fetch k) = Some (NonError s)" for s
      using attempt_once_rejected[OF r] dec by (auto simp: catch_block_def)
    have "buildUrl URL_new c (path options) (query options) = Inr u
           \<and> int k \<le> maxRetries c
           \<and> snd (request URL_new fetch c options) = attempt_trace u (build_init c options) k
           \<and> (\<forall>st js m. fetch k = Response st js \<and> \<not> (200 \<le> st \<and> st \<le> 299)
                          \<and> error_message st js = Inr m \<and> convertible m \<longrightarrow>
                 (\<exists>se. e = SuppErr se \<and> status se = st \<and> message se = String_json m
                       \<and> (code se \<in> set stable_codes \<or> code se = ''HTTP_'' @ decimal st)))
           \<and> (\<forall>st js. fetch k = Response st js \<and> 500 \<le> st \<longrightarrow> int k = maxRetries c)
           \<and> (rejection (fetch k) = Some AbortError \<longrightarrow>
                 int k = maxRetries c
                 \<and> e = SuppErr \<lparr> name = ''SuppError'', message = ''Request timed out'',
                                  status = 408, code = ''TIMEOUT'' \<rparr>)
           \<and> (\<forall>nm msg. rejection (fetch k) = Some (ErrorObj nm msg) \<longrightarrow>
                 int k = maxRetries c \<and> e = ErrorObj nm msg)
           \<and> (\<forall>s. rejection (fetch k) = Some (NonError s) \<longrightarrow>
                 int k = maxRetries c \<and> e = ErrorObj ''Error'' s)"
    proof (intro conjI allI impI)
      show "buildUrl URL_new c (path options) (query options) = Inr u" by (rule Inr)
      show "int k \<le> maxRetries c" by (rule k)
      show "snd (request URL_new fetch c options) = attempt_trace u (build_init c options) k"
        by (rule tr)
      show "\<exists>se. e = SuppErr se \<and> status se = st \<and> message se = String_json m
                       \<and> (code se \<in> set stable_codes \<or> code se = ''HTTP_'' @ decimal st)"
        if "fetch k = Response st js \<and> \<not> (200 \<le> st \<and> st \<le> 299)
                          \<and> error_message st js = Inr m \<and> convertible m" for st js m
        using that R by blast
      show "int k = maxRetries c" if "fetch k = Response st js \<and> 500 \<le> st" for st js
        using that S[of st js] by simp
      show "int k = maxRetries c" if "rejection (fetch k) = Some AbortError"
        using that T by simp
      show "e = SuppErr \<lparr> name = ''SuppError'', message = ''Request timed out'',
                                  status = 408, code = ''TIMEOUT'' \<rparr>"
        if "rejection (fetch k) = Some AbortError"
        using that T by simp
      show "int k = maxRetries c" if "rejection (fetch k) = Some (ErrorObj nm msg)" for nm msg
        using that N by simp
      show "e = ErrorObj nm msg" if "rejection (fetch k) = Some (ErrorObj nm msg)" for nm msg
        using that N by simp
      show "int k = maxRetries c" if "rejection (fetch k) = Some (NonError s)" for s
        using that V by simp
      show "e = ErrorObj ''Error'' s" if "rejection (fetch k) = Some (NonError s)" for s
        using that V by simp
    qed
    then show ?thesis by blast
  qed
qed

theorem request_failure_typed_or_raw_witness:
  "fst (request URL_at_origin
          (scripted [] (Response 404 (Resolved (JObj [(''error'', JStr ''no such rule'')]))))
          \<lparr> apiKey = ''sk_live_abc123'', baseUrl = ''https://api.example.com'',
            maxRetries = 2, timeout = 30000 \<rparr>
          \<lparr> req_method = GET, path = ''/api/routing/42'', body = None, query = None \<rparr>) =
     Inl (SuppErr \<lparr> name = ''NotFoundError'', message = ''no such rule'', status = 404,
                      code = ''NOT_FOUND'' \<rparr>)
   \<and> (\<exists>k. int k \<le> 2
          \<and> snd (request URL_at_origin
                (scripted [] (Response 404 (Resolved (JObj [(''error'', JStr ''no such rule'')]))))
                \<lparr> apiKey = ''sk_live_abc123'', baseUrl = ''https://api.example.com'',
                  maxRetries = 2, timeout = 30000 \<rparr>
                \<lparr> req_method = GET, path = ''/api/routing/42'', body = None, query = None \<rparr>) =
              attempt_trace ''https://api.example.com/api/routing/42''
                \<lparr> init_method = GET,
                  init_headers = [(''X-API-Key'', ''sk_live_abc123''),
                                  (''Content-Type'', ''application/json'')],
                  init_body = None \<rparr> k)"
proof -
  let ?r = "Response 404 (Resolved (JObj [(''error'', JStr ''no such rule'')]))"
  let ?f = "scripted [] ?r"
  let ?c = "\<lparr> apiKey = ''sk_live_abc123'', baseUrl = ''https://api.example.com'',
              maxRetries = 2, timeout = 30000 \<rparr>"
  let ?o = "\<lparr> req_method = GET, path = ''/api/routing/42'', body = None, query = None \<rparr>"
  let ?e = "SuppErr \<lparr> name = ''NotFoundError'', message = ''no such rule'', status = 404,
                      code = ''NOT_FOUND'' \<rparr>"
  have url: "buildUrl URL_at_origin ?c (path ?o) (query ?o) = Inr ''https://api.example.com/api/routing/42''"
    by (simp add: buildUrl_def URL_examples url_toString_def)
  have init: "build_init ?c ?o = \<lparr> init_method = GET,
                  init_headers = [(''X-API-Key'', ''sk_live_abc123''),
                                  (''Content-Type'', ''application/json'')],
                  init_body = None \<rparr>"
    by (simp add: build_init_def)
  have fail: "fst (request URL_at_origin ?f ?c ?o) = Inl ?e"
    by (simp add: request_def buildUrl_def URL_examples url_toString_def request_loop.simps
          scripted_def attempt_once_def try_block_def catch_block_def error_message_def
          ToString_def buildError_def NotFoundError_def SuppError_def)
  from request_failure_typed_or_raw[OF fail] url
  have "\<exists>k. int k \<le> 2 \<and> snd (request URL_at_origin ?f ?c ?o) =
          attempt_trace ''https://api.example.com/api/routing/42'' (build_init ?c ?o) k"
    by auto
  with fail show ?thesis by (simp add: init)
qed

text \<open>
  C4 as stated fails: when every attempt fails at the network level, the error thrown
  after the retries is the transport's own \<open>TypeError\<close>, not a \<open>SuppError\<close>; it carries no
  code and no status.
\<close>

theorem request_network_failure_surfaces_raw:
  "request URL_at_origin
      (scripted [] (FetchRejected (ErrorObj ''TypeError'' ''fetch failed'')))
      \<lparr> apiKey = ''sk_live_abc123'', baseUrl = ''https://api.example.com'',
        maxRetries = 1, timeout = 30000 \<rparr>
      \<lparr> req_method = GET, path = ''/api/billing'', body = None, query = None \<rparr> =
     (Inl (ErrorObj ''TypeError'' ''fetch failed''),
      [Fetch ''https://api.example.com/api/billing''
         \<lparr> init_method = GET,
           init_headers = [(''X-API-Key'', ''sk_live_abc123''), (''Content-Type'', ''application/json'')],
           init_body = None \<rparr>,
       Sleep 1000,
       Fetch ''https://api.example.com/api/billing''
         \<lparr> init_method = GET,
           init_headers = [(''X-API-Key'', ''sk_live_abc123''), (''Content-Type'', ''application/json'')],
           init_body = None \<rparr>])"
  by (simp add: request_def buildUrl_def URL_examples url_toString_def request_loop.simps
        scripted_def attempt_once_def try_block_def catch_block_def build_init_def backoff_def)

section \<open>A body that decodes to null\<close>

text \<open>
  C2, at an input where the code departs from it. Every response has status 404 and the body
  \<open>null\<close>, with \<open>maxRetries = 2\<close>. Reading \<open>errorBody.error\<close> throws a \<open>TypeError\<close> inside
  the \<open>try\<close> block; the \<open>catch\<close> block records it as the last error, and the 4xx response
  is retried: three calls, sleeps of 1000 and 2000 ms, and the \<open>TypeError\<close> is thrown in
  place of the \<open>NotFoundError\<close>.
\<close>

theorem request_retries_4xx_with_null_body:
  "request URL_at_origin
      (scripted [] (Response 404 (Resolved JNull)))
      \<lparr> apiKey = ''sk_live_abc123'', baseUrl = ''https://api.example.com'',
        maxRetries = 2, timeout = 30000 \<rparr>
      \<lparr> req_method = GET, path = ''/api/routing/42'', body = None, query = None \<rparr> =
     (Inl (ErrorObj ''TypeError'' ''Cannot read properties of null (reading 'error')''),
      [Fetch ''https://api.example.com/api/routing/42''
         \<lparr> init_method = GET,
           init_headers = [(''X-API-Key'', ''sk_live_abc123''), (''Content-Type'', ''application/json'')],
           init_body = None \<rparr>,
       Sleep 1000,
       Fetch ''https://api.example.com/api/routing/42''
         \<lparr> init_method = GET,
           init_headers = [(''X-API-Key'', ''sk_live_abc123''), (''Content-Type'', ''application/json'')],
           init_body = None \<rparr>,
       Sleep 2000,
       Fetch ''https://api.example.com/api/routing/42''
         \<lparr> init_method = GET,
           init_headers = [(''X-API-Key'', ''sk_live_abc123''), (''Content-Type'', ''application/json'')],
           init_body = None \<rparr>])"
  by (simp add: request_def buildUrl_def URL_examples url_toString_def request_loop.simps
        scripted_def attempt_once_def try_block_def catch_block_def build_init_def backoff_def
        error_message_def ToString_def null_read_def)

text \<open>
  C9, at an input where the code departs from it. The response has status 400 and the body
  \<open>null\<close>, with \<open>maxRetries = 0\<close>. The body has no \<open>error\<close> field, yet no message is
  synthesised and the status is not mapped: the error thrown is the \<open>TypeError\<close> of the
  property read, not the \<open>ValidationError\<close>.
\<close>

theorem request_400_null_body_not_mapped:
  "request URL_at_origin
      (scripted [] (Response 400 (Resolved JNull)))
      \<lparr> apiKey = ''sk_live_abc123'', baseUrl = ''https://api.example.com'',
        maxRetries = 0, timeout = 30000 \<rparr>
      \<lparr> req_method = POST, path = ''/api/classify'', body = Some [(''message'', JStr ''hi'')],
        query = None \<rparr> =
     (Inl (ErrorObj ''TypeError'' ''Cannot read properties of null (reading 'error')''),
      [Fetch ''https://api.example.com/api/classify''
         \<lparr> init_method = POST,
           init_headers = [(''X-API-Key'', ''sk_live_abc123''), (''Content-Type'', ''application/json'')],
           init_body = Some (JSON_stringify (JObj [(''message'', JStr ''hi'')])) \<rparr>])"
  by (simp add: request_def buildUrl_def URL_examples url_toString_def request_loop.simps
        scripted_def attempt_once_def try_block_def catch_block_def build_init_def backoff_def
        error_message_def ToString_def null_read_def)

section \<open>The target URL\<close>




end
